theory Spec2Isabelle
  imports Complex_Main "HOL-Library.Sublist" "HOL-Library.Multiset"
begin

section \<open>Strings\<close>

text \<open>
  A JavaScript string is modelled as a list of 8-bit characters, the code units
  U+0000 to U+00FF. The helpers below are the string methods the search tools call:
  \<open>toLowerCase\<close>, \<open>endsWith\<close>, \<open>trim\<close> and the rendering of a number inside a template literal.
  \<open>trim\<close> strips the white space and the line terminators of that range: tab, line feed,
  vertical tab, form feed, carriage return, space and the no-break space U+00A0.
  \<open>toLowerCase\<close> is applied to host names only, which are ASCII.
\<close>

definition isUpper :: "char \<Rightarrow> bool" where
  "isUpper c = (65 \<le> (of_char c :: nat) \<and> (of_char c :: nat) \<le> 90)"

definition lowerChar :: "char \<Rightarrow> char" where
  "lowerChar c = (if isUpper c then char_of ((of_char c :: nat) + 32) else c)"

definition toLowerCase :: "string \<Rightarrow> string" where
  "toLowerCase s = map lowerChar s"

definition endsWith :: "string \<Rightarrow> string \<Rightarrow> bool" where
  "endsWith s suf = (length suf \<le> length s \<and> drop (length s - length suf) s = suf)"

definition isWhiteSpace :: "char \<Rightarrow> bool" where
  "isWhiteSpace c = ((of_char c :: nat) \<in> {9, 10, 11, 12, 13, 32, 160})"

definition trim :: "string \<Rightarrow> string" where
  "trim s = rev (dropWhile isWhiteSpace (rev (dropWhile isWhiteSpace s)))"

definition digitChar :: "nat \<Rightarrow> char" where
  "digitChar d = char_of (48 + d)"

fun showNat :: "nat \<Rightarrow> string" where
  "showNat n = (if n < 10 then [digitChar n] else showNat (n div 10) @ [digitChar (n mod 10)])"

declare showNat.simps [simp del]

definition nl :: string where
  "nl = [CHR 0x0A]"

section \<open>The platform's URL parser\<close>

text \<open>
  \<open>new URL(url).hostname\<close> is the platform's, not the repository's: the functions of the
  repository take it as a parameter of type \<open>string \<Rightarrow> string option\<close>, \<open>None\<close> where the
  constructor throws. \<open>urlHostname\<close> is a model of it for absolute URLs, enough to evaluate
  the filter on concrete inputs: scheme, credentials, host and port of the special
  schemes, the host of \<open>file:\<close> and the opaque host of the other schemes, with
  percent-decoding of a domain and the bound of a port. It leaves out IDNA (a host with
  characters beyond ASCII), and IPv4 and IPv6 literals, which are never VinUni hosts.
\<close>

definition isAsciiAlpha :: "char \<Rightarrow> bool" where
  "isAsciiAlpha c = (let n = (of_char c :: nat) in (65 \<le> n \<and> n \<le> 90) \<or> (97 \<le> n \<and> n \<le> 122))"

definition isAsciiDigit :: "char \<Rightarrow> bool" where
  "isAsciiDigit c = (let n = (of_char c :: nat) in 48 \<le> n \<and> n \<le> 57)"

definition isSchemeChar :: "char \<Rightarrow> bool" where
  "isSchemeChar c = (isAsciiAlpha c \<or> isAsciiDigit c \<or> c = CHR ''+'' \<or> c = CHR ''-'' \<or> c = CHR ''.'')"

definition isC0OrSpace :: "char \<Rightarrow> bool" where
  "isC0OrSpace c = ((of_char c :: nat) \<le> 32)"

definition isTabOrNewline :: "char \<Rightarrow> bool" where
  "isTabOrNewline c = ((of_char c :: nat) \<in> {9, 10, 13})"

definition isSlash :: "char \<Rightarrow> bool" where
  "isSlash c = (c = CHR ''/'' \<or> c = CHR 0x5C)"

text \<open>The authority ends at a slash, a question mark or a hash, and for a special scheme
  at a backslash too.\<close>

definition isAuthorityEnd :: "bool \<Rightarrow> char \<Rightarrow> bool" where
  "isAuthorityEnd special c =
     (c = CHR ''/'' \<or> c = CHR ''?'' \<or> c = CHR ''#'' \<or> (special \<and> c = CHR 0x5C))"

definition isForbiddenHostChar :: "char \<Rightarrow> bool" where
  "isForbiddenHostChar c =
     ((of_char c :: nat) \<in> {0, 9, 10, 13, 32} \<or> c \<in> set (''#/:<>?@[]^|'' @ [CHR 0x5C]))"

definition isForbiddenDomainChar :: "char \<Rightarrow> bool" where
  "isForbiddenDomainChar c =
     (isForbiddenHostChar c \<or> (of_char c :: nat) \<le> 31 \<or> c = CHR ''%''
      \<or> (of_char c :: nat) = 127)"

definition specialSchemes :: "string list" where
  "specialSchemes = [''http'', ''https'', ''ftp'', ''ws'', ''wss'']"

definition hexValue :: "char \<Rightarrow> nat option" where
  "hexValue c =
     (let n = (of_char c :: nat)
      in if 48 \<le> n \<and> n \<le> 57 then Some (n - 48)
         else if 65 \<le> n \<and> n \<le> 70 then Some (n - 55)
         else if 97 \<le> n \<and> n \<le> 102 then Some (n - 87)
         else None)"

fun percentDecode :: "string \<Rightarrow> string" where
  "percentDecode (a # b # c # cs) =
     (if a = CHR ''%''
      then (case hexValue b of
              None \<Rightarrow> a # percentDecode (b # c # cs)
            | Some h \<Rightarrow>
                (case hexValue c of
                   None \<Rightarrow> a # percentDecode (b # c # cs)
                 | Some l \<Rightarrow> char_of (16 * h + l) # percentDecode cs))
      else a # percentDecode (b # c # cs))"
| "percentDecode cs = cs"

definition hexDigit :: "nat \<Rightarrow> char" where
  "hexDigit d = (if d < 10 then char_of (48 + d) else char_of (55 + d))"

text \<open>The opaque host of a scheme that is not special keeps its letters and has its
  control characters and its bytes beyond ASCII percent-encoded.\<close>

definition percentEncodeC0 :: "string \<Rightarrow> string" where
  "percentEncodeC0 s =
     concat (map (\<lambda>c. let n = (of_char c :: nat)
                       in if n \<le> 31 \<or> 127 \<le> n
                          then [CHR ''%'', hexDigit (n div 16), hexDigit (n mod 16)]
                          else [c]) s)"

definition portValue :: "string \<Rightarrow> int" where
  "portValue ds = foldl (\<lambda>n d. 10 * n + ((of_char d :: int) - 48)) 0 ds"

fun afterLastAt :: "string \<Rightarrow> string" where
  "afterLastAt [] = []"
| "afterLastAt (c # cs) = (if CHR ''@'' \<in> set cs then afterLastAt cs
                           else if c = CHR ''@'' then cs else c # cs)"

text \<open>A domain: percent-decoded and lower-cased; empty or with a forbidden character
  it fails.\<close>

definition checkDomain :: "string \<Rightarrow> string option" where
  "checkDomain domain =
     (if domain = [] \<or> list_ex isForbiddenDomainChar domain then None else Some domain)"

definition parseDomain :: "string \<Rightarrow> string option" where
  "parseDomain host = checkDomain (toLowerCase (percentDecode host))"

text \<open>
  The authority after its last \<open>@\<close> is the host and, after a colon, the port: the port is
  a number up to 65535, the host of a special scheme is a domain, and the host of another
  scheme is opaque.
\<close>

definition checkHostPort :: "bool \<Rightarrow> string \<Rightarrow> string \<Rightarrow> string option" where
  "checkHostPort special host port =
     (if host = [] \<or> \<not> list_all isAsciiDigit port \<or> 65535 < portValue port
      then None
      else if special then parseDomain host
      else if list_ex isForbiddenHostChar host then None
      else Some (percentEncodeC0 host))"

definition splitHostPort :: "bool \<Rightarrow> string \<Rightarrow> string option" where
  "splitHostPort special hostport =
     checkHostPort special (takeWhile (\<lambda>c. c \<noteq> CHR '':'') hostport)
       (drop 1 (dropWhile (\<lambda>c. c \<noteq> CHR '':'') hostport))"

definition hostOfAuthority :: "bool \<Rightarrow> string \<Rightarrow> string option" where
  "hostOfAuthority special authority = splitHostPort special (afterLastAt authority)"

text \<open>The host of a \<open>file:\<close> URL: none without two slashes, none for a drive letter, and
  otherwise a domain, without credentials and without a port; \<open>localhost\<close> reads as none.\<close>

definition fileBufferHost :: "string \<Rightarrow> string option" where
  "fileBufferHost buffer =
     (if buffer = [] then Some []
      else if length buffer = 2 \<and> isAsciiAlpha (hd buffer)
              \<and> (last buffer = CHR '':'' \<or> last buffer = CHR ''|'')
      then Some []
      else (case parseDomain buffer of
              None \<Rightarrow> None
            | Some h \<Rightarrow> if h = ''localhost'' then Some [] else Some h))"

definition fileHost :: "string \<Rightarrow> string option" where
  "fileHost after =
     (if length after < 2 \<or> \<not> list_all isSlash (take 2 after) then Some []
      else fileBufferHost (takeWhile (\<lambda>x. \<not> isAuthorityEnd True x) (drop 2 after)))"

definition opaqueHost :: "string \<Rightarrow> string option" where
  "opaqueHost authority = (if authority = [] then Some [] else hostOfAuthority False authority)"

text \<open>What follows the scheme: a colon, and then the host as the scheme has it.\<close>

definition afterScheme :: "string \<Rightarrow> string \<Rightarrow> string option" where
  "afterScheme scheme rest =
     (case rest of
        [] \<Rightarrow> None
      | d # after \<Rightarrow>
          if d \<noteq> CHR '':'' then None
          else if scheme = ''file'' then fileHost after
          else if scheme \<in> set specialSchemes
          then hostOfAuthority True
                 (takeWhile (\<lambda>x. \<not> isAuthorityEnd True x) (dropWhile isSlash after))
          else if take 2 after = ''//''
          then opaqueHost (takeWhile (\<lambda>x. \<not> isAuthorityEnd False x) (drop 2 after))
          else Some [])"

text \<open>Without a base URL, the input starts with a scheme, which starts with a letter.\<close>

definition parseAbsolute :: "string \<Rightarrow> string option" where
  "parseAbsolute input =
     (case input of
        [] \<Rightarrow> None
      | c # _ \<Rightarrow>
          if \<not> isAsciiAlpha c then None
          else afterScheme (toLowerCase (takeWhile isSchemeChar input))
                 (dropWhile isSchemeChar input))"

text \<open>Leading and trailing control characters and spaces are stripped, tabs and newlines
  removed.\<close>

definition urlHostname :: "string \<Rightarrow> string option" where
  "urlHostname url =
     parseAbsolute (filter (\<lambda>c. \<not> isTabOrNewline c)
                      (rev (dropWhile isC0OrSpace (rev (dropWhile isC0OrSpace url)))))"

section \<open>Domain filter\<close>

text \<open>
  \<open>isVinUniDomain\<close>: the \<open>try\<close> block parses the URL and tests the lower-cased host name;
  the \<open>catch\<close> block returns \<open>false\<close>.
\<close>

definition isVinUniDomain :: "(string \<Rightarrow> string option) \<Rightarrow> string \<Rightarrow> bool" where
  "isVinUniDomain parseHostname url =
     (case parseHostname url of
        None \<Rightarrow> False
      | Some h \<Rightarrow>
          (let hostname = toLowerCase h
           in endsWith hostname ''.vinuni.edu.vn'' \<or> hostname = ''vinuni.edu.vn''))"

section \<open>Data\<close>

text \<open>
  A thrown JavaScript exception is a value: fallible code returns \<open>error + 'a\<close>, and every
  \<open>try\<close>/\<open>catch\<close> of the source is a case distinction on \<open>Inl\<close>.
\<close>

datatype error = Error string

text \<open>
  One item of a Tavily response, with the fields the tools read. A field the backend may
  leave out is an option; \<open>score\<close> is a finite number, so the sign of the comparator's
  difference is the sign of the exact difference.
\<close>

record search_result =
  title :: string
  url :: "string option"
  rawContent :: "string option"
  score :: "real option"

record citation =
  title :: string
  url :: "string option"
  content :: "string option"
  score :: "real option"

text \<open>What \<open>performDualDomainSearch\<close> returns.\<close>

record search_response =
  results :: "search_result list"
  policyCount :: nat
  mainCount :: nat
  totalCount :: nat
  generalSearchTotal :: nat
  filteredFromGeneral :: nat

text \<open>
  The object the tools return, as the UI's \<open>SearchToolResultProps\<close> declares it: every
  field of \<open>searchStats\<close> is optional, \<open>denied\<close> left out reads as false, and an answer
  left out reads as the empty string (both are only tested for truthiness).
\<close>

record search_stats =
  policyResults :: "nat option"
  vinUniDomainResults :: "nat option"
  totalResults :: "nat option"
  generalSearchTotal :: "nat option"
  filteredFromGeneral :: "nat option"
  fileSearchCompleted :: "bool option"
  tavilySearchCompleted :: "bool option"
  fileResultsFound :: "bool option"
  tavilyResultsFound :: "bool option"
  fileCitations :: "nat option"
  tavilyCitations :: "nat option"
  totalSources :: "nat option"

record tool_result =
  answer :: string
  citations :: "citation list option"
  denied :: bool
  searchQuery :: "string option"
  keywords' :: "string option"
  searchStats :: "search_stats option"

record validation =
  isValid :: bool
  reason :: "string option"

text \<open>
  The world outside the tools: the process environment, the platform's URL parser, the
  four remote capabilities and the data stream. \<open>writeData\<close> is \<open>dataStream.writeData\<close>, by
  the \<open>step\<close> of the progress event it is given: \<open>None\<close> when the event is written, the
  exception when the call throws (no run writes the same step twice). \<open>fetchFileSearch\<close> is imported from \<open>./file-search\<close>; the dual
  search tool depends only on what it returns, so it is a parameter like the remote
  services: it throws, returns \<open>null\<close> or returns a result. \<open>openaiClassify\<close> and \<open>openaiGenerate\<close> stand for
  \<open>openai.chat.completions.create\<close> with the validation prompt and with the answer prompt,
  and give \<open>response.choices[0]?.message?.content\<close>; the prompts are functions of the
  arguments shown. \<open>tavilyClientSearch\<close> takes the query and \<open>maxResults\<close> and gives the
  response's \<open>results\<close>.
\<close>

record env =
  VECTOR_STORE_ID :: "string option"
  TAVILY_API_KEY :: "string option"
  hostnameOf :: "string \<Rightarrow> string option"
  fetchFileSearch :: "string \<Rightarrow> string \<Rightarrow> error + tool_result option"
  openaiClassify :: "string \<Rightarrow> error + string option"
  tavilyClientSearch :: "string \<Rightarrow> nat \<Rightarrow> error + search_result list option"
  openaiGenerate :: "string \<Rightarrow> search_result list \<Rightarrow> error + string option"
  writeData :: "string \<Rightarrow> error option"

text \<open>
  The effects of a run, in order: the progress events written to the data stream (by
  their \<open>step\<close>) and the calls to the backends. A run is the value or the exception it
  ends with, and its effects. \<open>writeStep\<close> is one call of \<open>writeData\<close> followed by the rest
  of the block: the call that throws ends the block with its exception, and the event of
  a call that returns is added to the effects.
\<close>

datatype event =
    Progress string
  | FileSearchCall string string
  | ClassifyCall string
  | TavilySearchCall string nat
  | GenerateCall string "search_result list"

type_synonym 'a run = "(error + 'a) \<times> event list"

definition writeStep ::
  "(string \<Rightarrow> error option) \<Rightarrow> string \<Rightarrow> event list \<Rightarrow> (event list \<Rightarrow> 'a run) \<Rightarrow> 'a run" where
  "writeStep w step t rest =
     (case w step of Some e \<Rightarrow> (Inl e, t) | None \<Rightarrow> rest (t @ [Progress step]))"

section \<open>Constants\<close>

definition DEFAULT_ERROR_MESSAGE :: string where
  "DEFAULT_ERROR_MESSAGE =
     ''An unexpected error has occurred. Please refresh the page, delete this chat or try again later!''"

definition DENIED_MESSAGE :: string where
  "DENIED_MESSAGE =
     ''I'm sorry, but I can only assist with questions related to VinUni-related topics. Please ask questions about admissions, scholarships, courses, faculty, research, campus life, or other university-related topics.''"

definition FILE_DENIED_MESSAGE :: string where
  "FILE_DENIED_MESSAGE =
     ''I'm sorry, but I can only assist with questions related to VinUni-related topics.''"

definition VALIDATION_REASON :: string where
  "VALIDATION_REASON =
     ''Your question doesn't appear to be related to VinUni or university topics. Please ask about admissions, courses, policies, campus life, or other university-related matters.''"

definition NO_RESULTS_MESSAGE :: string where
  "NO_RESULTS_MESSAGE =
     ''I couldn't find any relevant information in the VinUni documents for your query. This could mean:''
     @ nl @ nl @ ''1. The information might not be available in our indexed documents''
     @ nl @ ''2. Try rephrasing your question with different keywords''
     @ nl @ ''3. Your question might be too specific or too broad''
     @ nl @ nl @ ''Please try rephrasing your search query or ask about other VinUni-related topics such as admissions, courses, policies, or campus life.''"

definition NOT_FOUND_MESSAGE :: string where
  "NOT_FOUND_MESSAGE =
     ''I couldn't find specific information to answer your question in the available VinUni documents. Please try rephrasing your question or ask about other VinUni-related topics.''"

definition NEITHER_MESSAGE :: string where
  "NEITHER_MESSAGE =
     ''I couldn't find relevant information in either the file database or VinUni policy documents. Please try rephrasing your question or asking about other VinUni-related topics.''"

definition UNEXPECTED_MESSAGE :: string where
  "UNEXPECTED_MESSAGE =
     ''An unexpected error occurred during the search. Please try again later.''"

definition MAX_RESULTS_PER_DOMAIN :: nat where
  "MAX_RESULTS_PER_DOMAIN = 5"

definition MAX_GENERAL_RESULTS :: nat where
  "MAX_GENERAL_RESULTS = 5"

definition truthy :: "string option \<Rightarrow> bool" where
  "truthy v = (case v of None \<Rightarrow> False | Some s \<Rightarrow> s \<noteq> [])"

definition orElse :: "string option \<Rightarrow> string \<Rightarrow> string" where
  "orElse v d = (case v of None \<Rightarrow> d | Some s \<Rightarrow> if s = [] then d else s)"

definition noStats :: search_stats where
  "noStats = \<lparr>policyResults = None, vinUniDomainResults = None, totalResults = None,
              generalSearchTotal = None, filteredFromGeneral = None,
              fileSearchCompleted = None, tavilySearchCompleted = None,
              fileResultsFound = None, tavilyResultsFound = None,
              fileCitations = None, tavilyCitations = None, totalSources = None\<rparr>"

section \<open>Ranking\<close>

text \<open>
  \<open>Array.prototype.sort\<close> with a comparator is a stable sort: \<open>sortBy\<close> inserts each
  element, from the right, before the first element it does not come after, so elements
  the comparator ranks equal keep their order. \<open>byScore\<close> is the comparator of the source,
  \<open>(b.score || 0) - (a.score || 0)\<close>.
\<close>

definition scoreOr0 :: "search_result \<Rightarrow> real" where
  "scoreOr0 r = (case search_result.score r of None \<Rightarrow> 0 | Some x \<Rightarrow> x)"

definition byScore :: "search_result \<Rightarrow> search_result \<Rightarrow> real" where
  "byScore a b = scoreOr0 b - scoreOr0 a"

fun insertBy :: "('a \<Rightarrow> 'a \<Rightarrow> real) \<Rightarrow> 'a \<Rightarrow> 'a list \<Rightarrow> 'a list" where
  "insertBy cmp x [] = [x]"
| "insertBy cmp x (y # ys) = (if cmp x y \<le> 0 then x # y # ys else y # insertBy cmp x ys)"

definition sortBy :: "('a \<Rightarrow> 'a \<Rightarrow> real) \<Rightarrow> 'a list \<Rightarrow> 'a list" where
  "sortBy cmp xs = foldr (insertBy cmp) xs []"

definition combinedResults :: "search_result list \<Rightarrow> search_result list \<Rightarrow> search_result list" where
  "combinedResults policyRs topGeneralRs = policyRs @ topGeneralRs"

definition sortedResults :: "search_result list \<Rightarrow> search_result list \<Rightarrow> search_result list" where
  "sortedResults policyRs topGeneralRs =
     take 6 (sortBy byScore (combinedResults policyRs topGeneralRs))"

section \<open>The Tavily search tool\<close>

text \<open>
  The functions of the Tavily tool that write progress events come twice: first with a
  data stream that accepts every write, as the tool runs when the stream is open, and then
  (\<open>_stream\<close>) with the stream as a parameter, each write a point where the run may throw.
  The two agree on a stream that accepts every write.
\<close>

definition filterVinUniResults :: "env \<Rightarrow> search_result list \<Rightarrow> search_result list" where
  "filterVinUniResults env rs =
     filter (\<lambda>result. case search_result.url result of
                         None \<Rightarrow> False
                       | Some u \<Rightarrow> if u = [] then False else isVinUniDomain (hostnameOf env) u) rs"

definition orEmpty :: "'a list option \<Rightarrow> 'a list" where
  "orEmpty v = (case v of None \<Rightarrow> [] | Some xs \<Rightarrow> xs)"

text \<open>
  \<open>performDualDomainSearch\<close>: the policy search, then the general search filtered to the
  VinUni domains; a search that throws is rethrown by the \<open>catch\<close> block.
\<close>

definition performDualDomainSearch :: "env \<Rightarrow> string \<Rightarrow> (error + search_response) \<times> event list" where
  "performDualDomainSearch env keywords0 =
     (let policyQuery = ''site:policy.vinuni.edu.vn '' @ keywords0;
          generalQuery = keywords0
      in case tavilyClientSearch env policyQuery MAX_RESULTS_PER_DOMAIN of
           Inl e \<Rightarrow>
             (Inl e, [Progress ''search-policy'', TavilySearchCall policyQuery MAX_RESULTS_PER_DOMAIN])
         | Inr policyResponse \<Rightarrow>
             (case tavilyClientSearch env generalQuery MAX_GENERAL_RESULTS of
                Inl e \<Rightarrow>
                  (Inl e, [Progress ''search-policy'', TavilySearchCall policyQuery MAX_RESULTS_PER_DOMAIN,
                           Progress ''search-general'', TavilySearchCall generalQuery MAX_GENERAL_RESULTS])
              | Inr generalResponse \<Rightarrow>
                  (let filteredGeneralResults = filterVinUniResults env (orEmpty generalResponse);
                       topGeneralResults = take MAX_RESULTS_PER_DOMAIN filteredGeneralResults;
                       sortedRs = sortedResults (orEmpty policyResponse) topGeneralResults
                   in (Inr \<lparr>results = sortedRs,
                            policyCount = length (orEmpty policyResponse),
                            mainCount = length topGeneralResults,
                            totalCount = length sortedRs,
                            generalSearchTotal = length (orEmpty generalResponse),
                            filteredFromGeneral = length filteredGeneralResults\<rparr>,
                       [Progress ''search-policy'', TavilySearchCall policyQuery MAX_RESULTS_PER_DOMAIN,
                        Progress ''search-general'', TavilySearchCall generalQuery MAX_GENERAL_RESULTS,
                        Progress ''filter-results'']))))"

text \<open>
  \<open>validateVinUniQuery\<close>: only the trimmed reply \<open>DENIED\<close> denies; a call that throws is
  caught and the query is allowed.
\<close>

definition validateVinUniQuery :: "env \<Rightarrow> string \<Rightarrow> validation \<times> event list" where
  "validateVinUniQuery env query =
     ((case openaiClassify env query of
         Inl e \<Rightarrow> \<lparr>isValid = True, reason = None\<rparr>
       | Inr reply \<Rightarrow>
           (let result = map_option trim reply
            in if result = Some ''DENIED''
               then \<lparr>isValid = False, reason = Some VALIDATION_REASON\<rparr>
               else \<lparr>isValid = True, reason = None\<rparr>)),
      [ClassifyCall query])"

text \<open>
  \<open>generateAnswerWithContext\<close>: an empty or missing answer throws; the \<open>catch\<close> block
  rethrows.
\<close>

definition generateAnswerWithContext ::
  "env \<Rightarrow> string \<Rightarrow> search_result list \<Rightarrow> (error + string) \<times> event list" where
  "generateAnswerWithContext env query searchResults =
     ((case openaiGenerate env query searchResults of
         Inl e \<Rightarrow> Inl e
       | Inr reply \<Rightarrow>
           (case reply of
              None \<Rightarrow> Inl (Error ''Failed to generate answer'')
            | Some a \<Rightarrow> if a = [] then Inl (Error ''Failed to generate answer'') else Inr a)),
      [GenerateCall query searchResults])"

definition formatCitations :: "search_result list \<Rightarrow> citation list" where
  "formatCitations searchResults =
     map (\<lambda>result. \<lparr>title = search_result.title result,
                     url = search_result.url result,
                     content = rawContent result,
                     score = search_result.score result\<rparr>) searchResults"

definition tavilyStats :: "search_response \<Rightarrow> search_stats" where
  "tavilyStats searchResponse =
     noStats\<lparr>policyResults := Some (policyCount searchResponse),
             vinUniDomainResults := Some (mainCount searchResponse),
             totalResults := Some (totalCount searchResponse),
             generalSearchTotal := Some (search_response.generalSearchTotal searchResponse),
             filteredFromGeneral := Some (search_response.filteredFromGeneral searchResponse)\<rparr>"

definition plainResult :: "string \<Rightarrow> citation list \<Rightarrow> tool_result" where
  "plainResult a cs = \<lparr>answer = a, citations = Some cs, denied = False, searchQuery = None,
                        keywords' = None, searchStats = None\<rparr>"

text \<open>The body of the \<open>try\<close> block of \<open>fetchTavilyFileSearch\<close>.\<close>

definition fetchTavilyFileSearch_try :: "env \<Rightarrow> string \<Rightarrow> (error + tool_result) \<times> event list" where
  "fetchTavilyFileSearch_try env query =
     (case validateVinUniQuery env query of
        (validation, t1) \<Rightarrow>
          if \<not> isValid validation
          then (Inr ((plainResult (orElse (reason validation) DENIED_MESSAGE) [])
                       \<lparr>denied := True\<rparr>),
                Progress ''validate-query'' # t1)
          else
            (case performDualDomainSearch env query of
               (Inl e, t2) \<Rightarrow>
                 (Inl e, Progress ''validate-query'' # t1
                           @ [Progress ''extract-keywords'', Progress ''keywords-extracted''] @ t2)
             | (Inr searchResponse, t2) \<Rightarrow>
                 if totalCount searchResponse = 0
                 then (Inr ((plainResult NO_RESULTS_MESSAGE [])
                              \<lparr>searchStats := Some (tavilyStats searchResponse)\<rparr>),
                       Progress ''validate-query'' # t1
                         @ [Progress ''extract-keywords'', Progress ''keywords-extracted''] @ t2)
                 else
                   (case generateAnswerWithContext env query (results searchResponse) of
                      (Inl e, t3) \<Rightarrow>
                        (Inl e, Progress ''validate-query'' # t1
                                  @ [Progress ''extract-keywords'', Progress ''keywords-extracted''] @ t2
                                  @ [Progress ''search-complete'', Progress ''generate-answer''] @ t3)
                    | (Inr a, t3) \<Rightarrow>
                        ((if a = ''DENIED''
                          then Inr ((plainResult DENIED_MESSAGE [])\<lparr>denied := True\<rparr>)
                          else if a = ''NOT_FOUND''
                          then Inr ((plainResult NOT_FOUND_MESSAGE
                                       (formatCitations (results searchResponse)))
                                      \<lparr>searchStats := Some (tavilyStats searchResponse)\<rparr>)
                          else Inr ((plainResult a (formatCitations (results searchResponse)))
                                      \<lparr>searchQuery := Some query, keywords' := Some query,
                                       searchStats := Some (tavilyStats searchResponse)\<rparr>)),
                         Progress ''validate-query'' # t1
                           @ [Progress ''extract-keywords'', Progress ''keywords-extracted''] @ t2
                           @ [Progress ''search-complete'', Progress ''generate-answer''] @ t3))))"

text \<open>\<open>fetchTavilyFileSearch\<close>: the \<open>catch\<close> block turns every exception into the default answer.\<close>

definition fetchTavilyFileSearch :: "env \<Rightarrow> string \<Rightarrow> (error + tool_result) \<times> event list" where
  "fetchTavilyFileSearch env query =
     (case fetchTavilyFileSearch_try env query of
        (Inl e, t) \<Rightarrow> (Inr (plainResult DEFAULT_ERROR_MESSAGE []), t)
      | (Inr r, t) \<Rightarrow> (Inr r, t))"

section \<open>The Tavily search tool on a stream that may throw\<close>

text \<open>
  \<open>performDualDomainSearch\<close> with the data stream \<open>w\<close>: the three writes sit in the \<open>try\<close>
  block, whose \<open>catch\<close> rethrows.
\<close>

definition performDualDomainSearch_stream ::
  "(string \<Rightarrow> error option) \<Rightarrow> env \<Rightarrow> string \<Rightarrow> search_response run" where
  "performDualDomainSearch_stream w env keywords0 =
     (let policyQuery = ''site:policy.vinuni.edu.vn '' @ keywords0;
          generalQuery = keywords0
      in writeStep w ''search-policy'' [] (\<lambda>t1.
           case tavilyClientSearch env policyQuery MAX_RESULTS_PER_DOMAIN of
             Inl e \<Rightarrow> (Inl e, t1 @ [TavilySearchCall policyQuery MAX_RESULTS_PER_DOMAIN])
           | Inr policyResponse \<Rightarrow>
               writeStep w ''search-general''
                 (t1 @ [TavilySearchCall policyQuery MAX_RESULTS_PER_DOMAIN]) (\<lambda>t2.
                 case tavilyClientSearch env generalQuery MAX_GENERAL_RESULTS of
                   Inl e \<Rightarrow> (Inl e, t2 @ [TavilySearchCall generalQuery MAX_GENERAL_RESULTS])
                 | Inr generalResponse \<Rightarrow>
                     (let filteredGeneralResults =
                            filterVinUniResults env (orEmpty generalResponse);
                          topGeneralResults = take MAX_RESULTS_PER_DOMAIN filteredGeneralResults;
                          sortedRs = sortedResults (orEmpty policyResponse) topGeneralResults
                      in writeStep w ''filter-results''
                           (t2 @ [TavilySearchCall generalQuery MAX_GENERAL_RESULTS]) (\<lambda>t3.
                           (Inr \<lparr>results = sortedRs,
                                  policyCount = length (orEmpty policyResponse),
                                  mainCount = length topGeneralResults,
                                  totalCount = length sortedRs,
                                  generalSearchTotal = length (orEmpty generalResponse),
                                  filteredFromGeneral = length filteredGeneralResults\<rparr>,
                            t3))))))"

text \<open>The body of the \<open>try\<close> block of \<open>fetchTavilyFileSearch\<close> with the data stream \<open>w\<close>.\<close>

definition fetchTavilyFileSearch_stream_try ::
  "(string \<Rightarrow> error option) \<Rightarrow> env \<Rightarrow> string \<Rightarrow> tool_result run" where
  "fetchTavilyFileSearch_stream_try w env query =
     writeStep w ''validate-query'' [] (\<lambda>t0.
       case validateVinUniQuery env query of
         (validation, t1) \<Rightarrow>
           if \<not> isValid validation
           then (Inr ((plainResult (orElse (reason validation) DENIED_MESSAGE) [])
                        \<lparr>denied := True\<rparr>),
                 t0 @ t1)
           else
             writeStep w ''extract-keywords'' (t0 @ t1) (\<lambda>t2.
             writeStep w ''keywords-extracted'' t2 (\<lambda>t3.
               case performDualDomainSearch_stream w env query of
                 (Inl e, t4) \<Rightarrow> (Inl e, t3 @ t4)
               | (Inr searchResponse, t4) \<Rightarrow>
                   if totalCount searchResponse = 0
                   then (Inr ((plainResult NO_RESULTS_MESSAGE [])
                                \<lparr>searchStats := Some (tavilyStats searchResponse)\<rparr>),
                         t3 @ t4)
                   else
                     writeStep w ''search-complete'' (t3 @ t4) (\<lambda>t5.
                     writeStep w ''generate-answer'' t5 (\<lambda>t6.
                       case generateAnswerWithContext env query (results searchResponse) of
                         (Inl e, t7) \<Rightarrow> (Inl e, t6 @ t7)
                       | (Inr a, t7) \<Rightarrow>
                           ((if a = ''DENIED''
                             then Inr ((plainResult DENIED_MESSAGE [])\<lparr>denied := True\<rparr>)
                             else if a = ''NOT_FOUND''
                             then Inr ((plainResult NOT_FOUND_MESSAGE
                                          (formatCitations (results searchResponse)))
                                         \<lparr>searchStats := Some (tavilyStats searchResponse)\<rparr>)
                             else Inr ((plainResult a (formatCitations (results searchResponse)))
                                         \<lparr>searchQuery := Some query, keywords' := Some query,
                                          searchStats := Some (tavilyStats searchResponse)\<rparr>)),
                            t6 @ t7))))))"

text \<open>
  \<open>fetchTavilyFileSearch\<close> with the data stream \<open>w\<close>: the \<open>catch\<close> block turns every
  exception, a write's too, into the default answer.
\<close>

definition fetchTavilyFileSearch_stream ::
  "(string \<Rightarrow> error option) \<Rightarrow> env \<Rightarrow> string \<Rightarrow> tool_result run" where
  "fetchTavilyFileSearch_stream w env query =
     (case fetchTavilyFileSearch_stream_try w env query of
        (Inl e, t) \<Rightarrow> (Inr (plainResult DEFAULT_ERROR_MESSAGE []), t)
      | (Inr r, t) \<Rightarrow> (Inr r, t))"

section \<open>The dual search tool\<close>

text \<open>The local variables of \<open>execute\<close>.\<close>

record dual_state =
  combinedAnswer :: string
  combinedCitations :: "citation list"
  hasFileResults :: bool
  hasTavilyResults :: bool
  fileSearchResults :: "tool_result option"
  tavilyResults :: "tool_result option"

definition initialState :: dual_state where
  "initialState = \<lparr>combinedAnswer = [], combinedCitations = [], hasFileResults = False,
                     hasTavilyResults = False, fileSearchResults = None, tavilyResults = None\<rparr>"

text \<open>\<open>r?.citations?.length || 0\<close>\<close>

definition citationCount :: "tool_result option \<Rightarrow> nat" where
  "citationCount r = (case r of None \<Rightarrow> 0 | Some x \<Rightarrow> length (orEmpty (citations x)))"

text \<open>
  Step 1: the file database, on the data stream of the environment. Without
  \<open>VECTOR_STORE_ID\<close> the search is skipped. The inner \<open>try\<close> block holds the search and the
  write of \<open>file-search-complete\<close>; its \<open>catch\<close> block, \<open>fileSearchCatch\<close>, writes
  \<open>file-search-error\<close> and goes on with the variables as the \<open>try\<close> block left them. A write
  outside the \<open>try\<close> block, or in the \<open>catch\<close> block, that throws leaves the step with the
  exception.
\<close>

definition fileSearchCatch :: "env \<Rightarrow> dual_state \<Rightarrow> event list \<Rightarrow> dual_state run" where
  "fileSearchCatch env st t =
     writeStep (writeData env) ''file-search-error'' t (\<lambda>t'. (Inr st, t'))"

definition afterFileSearch :: "tool_result option \<Rightarrow> dual_state" where
  "afterFileSearch r =
     (case r of
        None \<Rightarrow> initialState
      | Some f \<Rightarrow>
          if answer f \<noteq> [] \<and> answer f \<noteq> FILE_DENIED_MESSAGE
             \<and> answer f \<noteq> DEFAULT_ERROR_MESSAGE
          then initialState
                 \<lparr>hasFileResults := True,
                  combinedAnswer := ''## File Database Results'' @ nl @ nl @ answer f,
                  combinedCitations := orEmpty (citations f),
                  fileSearchResults := Some f\<rparr>
          else initialState\<lparr>fileSearchResults := Some f\<rparr>)"

definition step1_fileSearch :: "env \<Rightarrow> string \<Rightarrow> dual_state run" where
  "step1_fileSearch env query =
     writeStep (writeData env) ''file-search-start'' [] (\<lambda>t0.
       if truthy (VECTOR_STORE_ID env)
       then (let vectorStoreId = orElse (VECTOR_STORE_ID env) []
             in case fetchFileSearch env query vectorStoreId of
                  Inl e \<Rightarrow>
                    fileSearchCatch env initialState (t0 @ [FileSearchCall query vectorStoreId])
                | Inr r \<Rightarrow>
                    (case writeData env ''file-search-complete'' of
                       None \<Rightarrow>
                         (Inr (afterFileSearch r),
                          t0 @ [FileSearchCall query vectorStoreId,
                                Progress ''file-search-complete''])
                     | Some e \<Rightarrow>
                         fileSearchCatch env (afterFileSearch r)
                           (t0 @ [FileSearchCall query vectorStoreId])))
       else writeStep (writeData env) ''file-search-skip'' t0 (\<lambda>t'. (Inr initialState, t')))"

text \<open>
  Step 2: the Tavily search tool, on the same data stream. \<open>Inl\<close> is the early \<open>return\<close> of
  the denial; \<open>Inr\<close> is the state the function goes on with. The inner \<open>try\<close> block holds the
  call of the tool and the write that follows it; its \<open>catch\<close> block, \<open>tavilySearchCatch\<close>,
  writes \<open>tavily-search-error\<close> and goes on with the variables as the \<open>try\<close> block left them.
\<close>

definition tavilySearchCatch ::
  "env \<Rightarrow> dual_state \<Rightarrow> event list \<Rightarrow> (tool_result + dual_state) run" where
  "tavilySearchCatch env st t =
     writeStep (writeData env) ''tavily-search-error'' t (\<lambda>t'. (Inr (Inr st), t'))"

definition withTavilyResults :: "dual_state \<Rightarrow> tool_result \<Rightarrow> dual_state" where
  "withTavilyResults st tr =
     st\<lparr>hasTavilyResults := True,
        combinedAnswer :=
          (if hasFileResults st
           then combinedAnswer st @ nl @ nl @ ''## VinUni Policy Documents'' @ nl @ nl @ answer tr
           else answer tr),
        combinedCitations := combinedCitations st @ orEmpty (citations tr),
        tavilyResults := Some tr\<rparr>"

definition step2_tavilySearch ::
  "env \<Rightarrow> string \<Rightarrow> dual_state \<Rightarrow> (tool_result + dual_state) run" where
  "step2_tavilySearch env query st =
     writeStep (writeData env) ''tavily-search-start'' [] (\<lambda>t0.
       if truthy (TAVILY_API_KEY env)
       then (case fetchTavilyFileSearch_stream (writeData env) env query of
               (Inl e, t) \<Rightarrow> tavilySearchCatch env st (t0 @ t)
             | (Inr tr, t) \<Rightarrow>
                 if answer tr \<noteq> [] \<and> \<not> denied tr \<and> answer tr \<noteq> DEFAULT_ERROR_MESSAGE
                 then (case writeData env ''tavily-search-complete'' of
                         None \<Rightarrow>
                           (Inr (Inr (withTavilyResults st tr)),
                            t0 @ t @ [Progress ''tavily-search-complete''])
                       | Some e \<Rightarrow> tavilySearchCatch env (withTavilyResults st tr) (t0 @ t))
                 else if denied tr
                 then (case writeData env ''tavily-search-denied'' of
                         None \<Rightarrow>
                           (if \<not> hasFileResults st
                            then Inr (Inl ((plainResult (answer tr) [])\<lparr>denied := True\<rparr>))
                            else Inr (Inr (st\<lparr>tavilyResults := Some tr\<rparr>)),
                            t0 @ t @ [Progress ''tavily-search-denied''])
                       | Some e \<Rightarrow>
                           tavilySearchCatch env (st\<lparr>tavilyResults := Some tr\<rparr>) (t0 @ t))
                 else (case writeData env ''tavily-search-complete'' of
                         None \<Rightarrow>
                           (Inr (Inr (st\<lparr>tavilyResults := Some tr\<rparr>)),
                            t0 @ t @ [Progress ''tavily-search-complete''])
                       | Some e \<Rightarrow>
                           tavilySearchCatch env (st\<lparr>tavilyResults := Some tr\<rparr>) (t0 @ t)))
       else writeStep (writeData env) ''tavily-search-skip'' t0 (\<lambda>t'. (Inr (Inr st), t')))"

text \<open>Step 3: the answer for each combination of the two flags.\<close>

definition step3_combine :: "env \<Rightarrow> dual_state \<Rightarrow> tool_result" where
  "step3_combine env st =
     (if \<not> hasFileResults st \<and> \<not> hasTavilyResults st
      then (plainResult NEITHER_MESSAGE [])
             \<lparr>searchStats := Some (noStats
                 \<lparr>fileSearchCompleted := Some (truthy (VECTOR_STORE_ID env)),
                  tavilySearchCompleted := Some (truthy (TAVILY_API_KEY env)),
                  totalSources := Some 0\<rparr>)\<rparr>
      else (plainResult
              (combinedAnswer st @
                 (if hasFileResults st \<and> hasTavilyResults st
                  then nl @ nl @ ''---'' @ nl @ nl @ ''*Results compiled from ''
                         @ showNat (citationCount (fileSearchResults st)) @ '' file sources and ''
                         @ showNat (citationCount (tavilyResults st))
                         @ '' policy document sources.*''
                  else if hasFileResults st
                  then nl @ nl @ ''*Results from file database (''
                         @ showNat (citationCount (fileSearchResults st))
                         @ '' sources). Policy documents search ''
                         @ (if truthy (TAVILY_API_KEY env)
                            then ''found no additional relevant information.''
                            else ''was unavailable.'') @ ''*''
                  else nl @ nl @ ''*Results from VinUni policy documents (''
                         @ showNat (citationCount (tavilyResults st))
                         @ '' sources). File database search ''
                         @ (if truthy (VECTOR_STORE_ID env)
                            then ''found no relevant information.''
                            else ''was unavailable.'') @ ''*''))
              (combinedCitations st))
             \<lparr>searchStats := Some (noStats
                 \<lparr>fileSearchCompleted := Some (truthy (VECTOR_STORE_ID env)),
                  tavilySearchCompleted := Some (truthy (TAVILY_API_KEY env)),
                  fileResultsFound := Some (hasFileResults st),
                  tavilyResultsFound := Some (hasTavilyResults st),
                  fileCitations := Some (citationCount (fileSearchResults st)),
                  tavilyCitations := Some (citationCount (tavilyResults st)),
                  totalSources := Some (length (combinedCitations st))\<rparr>)\<rparr>)"

text \<open>
  The body of the \<open>try\<close> block of \<open>execute\<close>: the two steps, the write of
  \<open>combining-results\<close> and the answer.
\<close>

definition execute_try :: "env \<Rightarrow> string \<Rightarrow> tool_result run" where
  "execute_try env query =
     (case step1_fileSearch env query of
        (Inl e, t1) \<Rightarrow> (Inl e, t1)
      | (Inr st1, t1) \<Rightarrow>
          (case step2_tavilySearch env query st1 of
             (Inl e, t2) \<Rightarrow> (Inl e, t1 @ t2)
           | (Inr (Inl r), t2) \<Rightarrow> (Inr r, t1 @ t2)
           | (Inr (Inr st2), t2) \<Rightarrow>
               writeStep (writeData env) ''combining-results'' (t1 @ t2)
                 (\<lambda>t. (Inr (step3_combine env st2), t))))"

text \<open>
  \<open>execute\<close> of \<open>dualSearchTool\<close>: the \<open>catch\<close> block writes the \<open>error\<close> event and then
  answers with the fixed message; when that write throws, \<open>execute\<close> throws.
\<close>

definition execute :: "env \<Rightarrow> string \<Rightarrow> tool_result run" where
  "execute env query =
     (case execute_try env query of
        (Inl e, t) \<Rightarrow>
          writeStep (writeData env) ''error'' t (\<lambda>t'. (Inr (plainResult UNEXPECTED_MESSAGE []), t'))
      | (Inr r, t) \<Rightarrow> (Inr r, t))"

section \<open>The citation preview of the UI\<close>

text \<open>
  \<open>SearchToolResult\<close> renders
  \<open>citation.content ? citation.content.substring(0, 150) + '...' : 'No preview available'\<close>.
\<close>

definition contentPreview :: "citation \<Rightarrow> string" where
  "contentPreview c =
     (if truthy (content c) then take 150 (orElse (content c) []) @ ''...''
      else ''No preview available'')"

section \<open>Backend calls in a trace\<close>

definition isTavilySearch :: "event \<Rightarrow> bool" where
  "isTavilySearch ev = (case ev of TavilySearchCall q n \<Rightarrow> True | _ \<Rightarrow> False)"

definition isBackendSearch :: "event \<Rightarrow> bool" where
  "isBackendSearch ev =
     (case ev of TavilySearchCall q n \<Rightarrow> True | FileSearchCall q v \<Rightarrow> True | _ \<Rightarrow> False)"

section \<open>Example runs\<close>

text \<open>
  Two documents that share a URL with different scores, one from outside the VinUni
  domains, one with a long text, and a world in which the policy search finds
  \<open>policyAid\<close> and the general search finds \<open>mirrorAid\<close> and \<open>unrelatedAid\<close>.
\<close>

definition policyAid :: search_result where
  "policyAid = \<lparr>search_result.title = ''Financial aid policy'', search_result.url = Some ''https://policy.vinuni.edu.vn/aid'',
                  rawContent = Some ''Aid is granted by merit and by need.'', search_result.score = Some (9 / 10)\<rparr>"

definition mirrorAid :: search_result where
  "mirrorAid = \<lparr>search_result.title = ''Financial aid'', search_result.url = Some ''https://policy.vinuni.edu.vn/aid'',
                  rawContent = Some ''Aid overview.'', search_result.score = Some (8 / 10)\<rparr>"

definition unrelatedAid :: search_result where
  "unrelatedAid = \<lparr>search_result.title = ''Aid elsewhere'', search_result.url = Some ''https://unrelated.com/aid'',
                     rawContent = Some ''Another university.'', search_result.score = Some (95 / 100)\<rparr>"

definition longDoc :: search_result where
  "longDoc = \<lparr>search_result.title = ''Handbook'', search_result.url = Some ''https://policy.vinuni.edu.vn/handbook'',
                rawContent = Some (replicate 300 (CHR ''a'')), search_result.score = Some (1 / 2)\<rparr>"

definition fileAnswer :: tool_result where
  "fileAnswer = plainResult ''Tuition is due in August.''
                  [\<lparr>title = ''fees.pdf'', url = None, content = None, score = None\<rparr>]"

definition exampleEnv ::
  "string option \<Rightarrow> (error + tool_result option) \<Rightarrow> (error + string option)
     \<Rightarrow> (error + string option) \<Rightarrow> env" where
  "exampleEnv vs fileOutcome classifyOutcome generateOutcome =
     \<lparr>VECTOR_STORE_ID = vs,
      TAVILY_API_KEY = Some ''tvly-key'',
      hostnameOf = urlHostname,
      fetchFileSearch = (\<lambda>q v. fileOutcome),
      openaiClassify = (\<lambda>q. classifyOutcome),
      tavilyClientSearch = (\<lambda>q n. if take 5 q = ''site:'' then Inr (Some [policyAid])
                                    else Inr (Some [mirrorAid, unrelatedAid])),
      openaiGenerate = (\<lambda>q rs. generateOutcome),
      writeData = (\<lambda>step. None)\<rparr>"

text \<open>The example world with a data stream that is closed: every write throws.\<close>

definition closedStreamEnv :: env where
  "closedStreamEnv =
     (exampleEnv (Some ''vs_1'') (Inr (Some fileAnswer)) (Inr (Some ''VALID'')) (Inr (Some ''Aid exists.'')))
       \<lparr>writeData := (\<lambda>step. Some (Error ''stream closed''))\<rparr>"

section \<open>Properties of the domain filter\<close>

lemma endsWith_iff: "endsWith s suf = (\<exists>pre. s = pre @ suf)"
proof
  assume "endsWith s suf"
  then have "s = take (length s - length suf) s @ suf"
    by (metis append_take_drop_id endsWith_def)
  then show "\<exists>pre. s = pre @ suf" ..
next
  assume "\<exists>pre. s = pre @ suf"
  then show "endsWith s suf" by (auto simp: endsWith_def)
qed

text \<open>
  C3. The filter answers false when the URL does not parse; for a URL that parses it
  answers true exactly when the lower-cased host is \<open>vinuni.edu.vn\<close> or ends with
  \<open>.vinuni.edu.vn\<close>; a host that ends with \<open>vinuni.edu.vn\<close> after a non-empty prefix without
  the separating dot is rejected. This holds for every parser; with \<open>urlHostname\<close> the three
  URLs of the specification get the answers it lists.
\<close>

theorem isVinUniDomain_spec:
  "(parse u = None \<longrightarrow> \<not> isVinUniDomain parse u)
   \<and> (\<forall>h. parse u = Some h \<longrightarrow>
          isVinUniDomain parse u
            = (toLowerCase h = ''vinuni.edu.vn''
               \<or> (\<exists>pre. toLowerCase h = pre @ ''.'' @ ''vinuni.edu.vn'')))
   \<and> (\<forall>h pre. parse u = Some h \<and> toLowerCase h = pre @ ''vinuni.edu.vn''
          \<and> pre \<noteq> [] \<and> last pre \<noteq> CHR ''.'' \<longrightarrow> \<not> isVinUniDomain parse u)
   \<and> isVinUniDomain urlHostname ''https://policy.vinuni.edu.vn/x''
   \<and> \<not> isVinUniDomain urlHostname ''https://evilvinuni.edu.vn/x''
   \<and> \<not> isVinUniDomain urlHostname ''not a url''"
proof (intro conjI allI impI)
  show "\<not> isVinUniDomain parse u" if "parse u = None"
    using that by (simp add: isVinUniDomain_def)
  show "isVinUniDomain parse u
            = (toLowerCase h = ''vinuni.edu.vn''
               \<or> (\<exists>pre. toLowerCase h = pre @ ''.'' @ ''vinuni.edu.vn''))"
    if "parse u = Some h" for h
    using that by (auto simp: isVinUniDomain_def endsWith_iff)
  show "\<not> isVinUniDomain parse u"
    if a: "parse u = Some h \<and> toLowerCase h = pre @ ''vinuni.edu.vn''
          \<and> pre \<noteq> [] \<and> last pre \<noteq> CHR ''.''" for h pre
  proof
    assume "isVinUniDomain parse u"
    with a have "pre @ ''vinuni.edu.vn'' = ''vinuni.edu.vn''
                 \<or> (\<exists>p. pre @ ''vinuni.edu.vn'' = p @ ''.vinuni.edu.vn'')"
      by (auto simp: isVinUniDomain_def endsWith_iff)
    then show False
    proof
      assume "pre @ ''vinuni.edu.vn'' = ''vinuni.edu.vn''"
      then have "pre = []" by simp
      with a show False by simp
    next
      assume "\<exists>p. pre @ ''vinuni.edu.vn'' = p @ ''.vinuni.edu.vn''"
      then obtain p where "pre @ ''vinuni.edu.vn'' = (p @ ''.'') @ ''vinuni.edu.vn''" by auto
      then have "pre = p @ ''.''" by (simp only: append_same_eq)
      with a show False by simp
    qed
  qed
  show "isVinUniDomain urlHostname ''https://policy.vinuni.edu.vn/x''" by code_simp
  show "\<not> isVinUniDomain urlHostname ''https://evilvinuni.edu.vn/x''" by code_simp
  show "\<not> isVinUniDomain urlHostname ''not a url''" by code_simp
qed

text \<open>C3 at the three URLs of the specification, each hypothesis discharged.\<close>

theorem isVinUniDomain_spec_witness:
  "urlHostname ''not a url'' = None
   \<and> \<not> isVinUniDomain urlHostname ''not a url''
   \<and> urlHostname ''https://policy.vinuni.edu.vn/x'' = Some ''policy.vinuni.edu.vn''
   \<and> isVinUniDomain urlHostname ''https://policy.vinuni.edu.vn/x''
       = (toLowerCase ''policy.vinuni.edu.vn'' = ''vinuni.edu.vn''
           \<or> (\<exists>pre. toLowerCase ''policy.vinuni.edu.vn'' = pre @ ''.'' @ ''vinuni.edu.vn''))
   \<and> urlHostname ''https://evilvinuni.edu.vn/x'' = Some ''evilvinuni.edu.vn''
   \<and> toLowerCase ''evilvinuni.edu.vn'' = ''evil'' @ ''vinuni.edu.vn''
   \<and> ''evil'' \<noteq> [] \<and> last ''evil'' \<noteq> CHR ''.''
   \<and> \<not> isVinUniDomain urlHostname ''https://evilvinuni.edu.vn/x''"
proof -
  have n: "urlHostname ''not a url'' = None" by code_simp
  have p: "urlHostname ''https://policy.vinuni.edu.vn/x'' = Some ''policy.vinuni.edu.vn''"
    by code_simp
  have h: "urlHostname ''https://evilvinuni.edu.vn/x'' = Some ''evilvinuni.edu.vn''" by code_simp
  have l: "toLowerCase ''evilvinuni.edu.vn'' = ''evil'' @ ''vinuni.edu.vn''" by code_simp
  have e: "''evil'' \<noteq> [] \<and> last ''evil'' \<noteq> CHR ''.''" by simp
  from isVinUniDomain_spec [of urlHostname "''not a url''"] n
  have a: "\<not> isVinUniDomain urlHostname ''not a url''" by blast
  from isVinUniDomain_spec [of urlHostname "''https://policy.vinuni.edu.vn/x''"] p
  have b: "isVinUniDomain urlHostname ''https://policy.vinuni.edu.vn/x''
       = (toLowerCase ''policy.vinuni.edu.vn'' = ''vinuni.edu.vn''
           \<or> (\<exists>pre. toLowerCase ''policy.vinuni.edu.vn'' = pre @ ''.'' @ ''vinuni.edu.vn''))"
    by blast
  from isVinUniDomain_spec [of urlHostname "''https://evilvinuni.edu.vn/x''"]
  have "\<forall>h pre. urlHostname ''https://evilvinuni.edu.vn/x'' = Some h
          \<and> toLowerCase h = pre @ ''vinuni.edu.vn'' \<and> pre \<noteq> [] \<and> last pre \<noteq> CHR ''.''
          \<longrightarrow> \<not> isVinUniDomain urlHostname ''https://evilvinuni.edu.vn/x''"
    by blast
  with h l e have c: "\<not> isVinUniDomain urlHostname ''https://evilvinuni.edu.vn/x''" by blast
  from n a p b h l e c show ?thesis by blast
qed

section \<open>Properties of the ranking\<close>

text \<open>For the comparator of the source, \<open>sortBy\<close> is the library's stable sort on the negated score.\<close>

lemma insertBy_byScore: "insertBy byScore x ys = insort_key (\<lambda>r. - scoreOr0 r) x ys"
  by (induction ys) (simp_all add: byScore_def)

lemma sortBy_byScore: "sortBy byScore xs = sort_key (\<lambda>r. - scoreOr0 r) xs"
proof -
  have "insertBy byScore = insort_key (\<lambda>r. - scoreOr0 r)"
    by (intro ext) (rule insertBy_byScore)
  then show ?thesis by (simp add: sortBy_def sort_key_def)
qed

lemma mset_sortBy: "mset (sortBy byScore xs) = mset xs"
  by (simp add: sortBy_byScore)

lemma sorted_sortBy: "sorted_wrt (\<lambda>a b. scoreOr0 b \<le> scoreOr0 a) (sortBy byScore xs)"
proof -
  have "sorted (map (\<lambda>r. - scoreOr0 r) (sort_key (\<lambda>r. - scoreOr0 r) xs))"
    by (rule sorted_sort_key)
  then show ?thesis by (simp add: sorted_map sortBy_byScore)
qed

lemma stable_sortBy:
  "filter (\<lambda>r. scoreOr0 r = k) (sortBy byScore xs) = filter (\<lambda>r. scoreOr0 r = k) xs"
proof -
  have "filter (\<lambda>r. - scoreOr0 r = - k) (sort_key (\<lambda>r. - scoreOr0 r) xs)
          = filter (\<lambda>r. - scoreOr0 r = - k) xs"
    by (rule sort_key_stable)
  then show ?thesis by (simp add: sortBy_byScore)
qed

lemma sortBy_sorted_id:
  assumes "sorted_wrt (\<lambda>a b. scoreOr0 b \<le> scoreOr0 a) xs"
  shows "sortBy byScore xs = xs"
proof -
  from assms have "sorted (map (\<lambda>r. - scoreOr0 r) xs)" by (simp add: sorted_map)
  then show ?thesis by (simp add: sortBy_byScore sort_key_id_if_sorted)
qed

lemma sorted_sortedResults:
  "sorted_wrt (\<lambda>a b. scoreOr0 b \<le> scoreOr0 a) (sortedResults p g)"
  unfolding sortedResults_def by (rule sorted_wrt_take) (rule sorted_sortBy)

lemma length_sortedResults: "length (sortedResults p g) \<le> 6"
  by (simp add: sortedResults_def)

text \<open>
  C5. The merged bundle has at most 6 entries, its scores never increase along the list
  (a missing score counts as 0), and entries of equal score stand in the order they had
  in the concatenation of the two result sets: the sort is stable.
\<close>

theorem sortedResults_bounded_sorted_stable:
  "length (sortedResults p g) \<le> 6
   \<and> sorted_wrt (\<lambda>a b. scoreOr0 b \<le> scoreOr0 a) (sortedResults p g)
   \<and> (\<forall>k. prefix (filter (\<lambda>r. scoreOr0 r = k) (sortedResults p g))
                   (filter (\<lambda>r. scoreOr0 r = k) (p @ g)))
   \<and> scoreOr0 (r\<lparr>search_result.score := None\<rparr>) = 0"
proof (intro conjI allI)
  show "length (sortedResults p g) \<le> 6" by (rule length_sortedResults)
  show "sorted_wrt (\<lambda>a b. scoreOr0 b \<le> scoreOr0 a) (sortedResults p g)"
    by (rule sorted_sortedResults)
  show "prefix (filter (\<lambda>r. scoreOr0 r = k) (sortedResults p g))
               (filter (\<lambda>r. scoreOr0 r = k) (p @ g))" for k
  proof -
    have "prefix (filter (\<lambda>r. scoreOr0 r = k) (take 6 (sortBy byScore (p @ g))))
                 (filter (\<lambda>r. scoreOr0 r = k) (sortBy byScore (p @ g)))"
      by (rule filter_mono_prefix) (rule take_is_prefix)
    then show ?thesis by (simp add: sortedResults_def combinedResults_def stable_sortBy)
  qed
  show "scoreOr0 (r\<lparr>search_result.score := None\<rparr>) = 0" by (simp add: scoreOr0_def)
qed

text \<open>
  C6. Merging an already merged bundle alone, as either of the two result sets, gives the
  same bundle: it is sorted and has at most 6 entries, so neither the stable sort nor the
  truncation changes it.
\<close>

theorem sortedResults_idempotent:
  "sortedResults (sortedResults a b) [] = sortedResults a b
   \<and> sortedResults [] (sortedResults a b) = sortedResults a b"
proof -
  have "take 6 (sortBy byScore (sortedResults a b)) = take 6 (sortedResults a b)"
    by (simp add: sortBy_sorted_id sorted_sortedResults)
  also have "\<dots> = sortedResults a b"
    using length_sortedResults [of a b] by simp
  finally show ?thesis
    by (simp add: sortedResults_def [of "sortedResults a b" "[]"]
        sortedResults_def [of "[]" "sortedResults a b"] combinedResults_def)
qed

text \<open>
  C2, as the code has it. The merge step does not de-duplicate: the merged bundle holds
  entries of the two result sets, none more often than the sets do, and when the sets
  have at most 6 entries together it holds every entry of both, so a URL the sets share
  appears once for each of its occurrences.
\<close>

theorem merge_keeps_duplicates:
  "mset (sortedResults p g) \<subseteq># mset p + mset g
   \<and> (length p + length g \<le> 6 \<longrightarrow> mset (sortedResults p g) = mset p + mset g)"
proof
  have "mset (take 6 (sortBy byScore (p @ g))) \<subseteq># mset (sortBy byScore (p @ g))"
    by (metis append_take_drop_id mset_subset_eq_add_left union_code)
  then show "mset (sortedResults p g) \<subseteq># mset p + mset g"
    by (simp add: sortedResults_def combinedResults_def mset_sortBy)
  show "length p + length g \<le> 6 \<longrightarrow> mset (sortedResults p g) = mset p + mset g"
    by (simp add: sortedResults_def combinedResults_def sortBy_byScore)
qed

theorem merge_keeps_duplicates_witness:
  "length [policyAid] + length [mirrorAid] \<le> 6
   \<and> mset (sortedResults [policyAid] [mirrorAid]) = mset [policyAid] + mset [mirrorAid]"
  using merge_keeps_duplicates [of "[policyAid]" "[mirrorAid]"] by simp

text \<open>The example world: the merged bundle and the response of the search.\<close>

lemma sortedResults_example: "sortedResults [policyAid] [mirrorAid] = [policyAid, mirrorAid]"
  by (simp add: sortedResults_def combinedResults_def sortBy_def byScore_def scoreOr0_def
      policyAid_def mirrorAid_def)

lemma exampleEnv_search:
  "fst (performDualDomainSearch (exampleEnv vs fo co go) ''financial aid'')
     = Inr \<lparr>results = [policyAid, mirrorAid], policyCount = 1, mainCount = 1, totalCount = 2,
             generalSearchTotal = 2, filteredFromGeneral = 1\<rparr>"
proof -
  let ?E = "exampleEnv vs fo co go"
  have m: "isVinUniDomain urlHostname ''https://policy.vinuni.edu.vn/aid''" by code_simp
  have u: "\<not> isVinUniDomain urlHostname ''https://unrelated.com/aid''" by code_simp
  have f: "filterVinUniResults ?E [mirrorAid, unrelatedAid] = [mirrorAid]"
    using m u by (simp add: filterVinUniResults_def exampleEnv_def mirrorAid_def unrelatedAid_def)
  have t1: "tavilyClientSearch ?E ''site:policy.vinuni.edu.vn financial aid'' 5 = Inr (Some [policyAid])"
    by (simp add: exampleEnv_def)
  have t2: "tavilyClientSearch ?E ''financial aid'' 5 = Inr (Some [mirrorAid, unrelatedAid])"
    by (simp add: exampleEnv_def)
  show ?thesis
    unfolding performDualDomainSearch_def Let_def MAX_RESULTS_PER_DOMAIN_def MAX_GENERAL_RESULTS_def
    by (simp add: t1 t2 f sortedResults_example orEmpty_def)
qed

text \<open>
  C2, as stated, fails: the policy search and the general search return the same URL
  with the scores 0.9 and 0.8, and the merged bundle holds both entries.
\<close>

theorem merge_duplicate_url_counterexample:
  "map search_result.url (sortedResults [policyAid] [mirrorAid])
     = [Some ''https://policy.vinuni.edu.vn/aid'', Some ''https://policy.vinuni.edu.vn/aid'']
   \<and> map search_result.score (sortedResults [policyAid] [mirrorAid]) = [Some (9 / 10), Some (8 / 10)]
   \<and> fst (performDualDomainSearch (exampleEnv None (Inr None) (Inr None) (Inr None)) ''financial aid'')
       = Inr \<lparr>results = [policyAid, mirrorAid], policyCount = 1, mainCount = 1, totalCount = 2,
               generalSearchTotal = 2, filteredFromGeneral = 1\<rparr>"
  using sortedResults_example exampleEnv_search [of None "Inr None" "Inr None" "Inr None"]
  by (simp add: policyAid_def mirrorAid_def)

section \<open>Properties of the citations\<close>

text \<open>
  C9, as the code has it. A citation has the fields \<open>title\<close>, \<open>url\<close>, \<open>content\<close> and
  \<open>score\<close>, each copied from the search result, \<open>content\<close> being the whole \<open>rawContent\<close>;
  the bound is the UI's, whose preview of a citation has at most 153 characters.
\<close>

theorem formatCitations_shape:
  "length (formatCitations rs) = length rs
   \<and> (\<forall>i < length rs.
         formatCitations rs ! i
           = \<lparr>title = search_result.title (rs ! i), url = search_result.url (rs ! i),
              content = rawContent (rs ! i), score = search_result.score (rs ! i)\<rparr>)
   \<and> (\<forall>c \<in> set (formatCitations rs). length (contentPreview c) \<le> 153)"
  by (simp add: formatCitations_def contentPreview_def)

text \<open>C9, as the code has it, at the one-document list \<open>[longDoc]\<close>.\<close>

theorem formatCitations_shape_witness:
  "0 < length [longDoc]
   \<and> formatCitations [longDoc] ! 0
        = \<lparr>title = ''Handbook'', url = Some ''https://policy.vinuni.edu.vn/handbook'',
           content = Some (replicate 300 (CHR ''a'')), score = Some (1 / 2)\<rparr>
   \<and> formatCitations [longDoc] ! 0 \<in> set (formatCitations [longDoc])
   \<and> length (contentPreview (formatCitations [longDoc] ! 0)) \<le> 153"
proof -
  note t = formatCitations_shape [of "[longDoc]"]
  from t have "length (formatCitations [longDoc]) = length [longDoc]" by blast
  then have "0 < length (formatCitations [longDoc])" by simp
  then have m: "formatCitations [longDoc] ! 0 \<in> set (formatCitations [longDoc])"
    by (rule nth_mem)
  from t have "formatCitations [longDoc] ! 0
           = \<lparr>title = search_result.title ([longDoc] ! 0), url = search_result.url ([longDoc] ! 0),
              content = rawContent ([longDoc] ! 0), score = search_result.score ([longDoc] ! 0)\<rparr>"
    by simp
  then have e: "formatCitations [longDoc] ! 0
        = \<lparr>title = ''Handbook'', url = Some ''https://policy.vinuni.edu.vn/handbook'',
           content = Some (replicate 300 (CHR ''a'')), score = Some (1 / 2)\<rparr>"
    by (simp add: longDoc_def)
  from t m have "length (contentPreview (formatCitations [longDoc] ! 0)) \<le> 153" by blast
  with m e show ?thesis by simp
qed

text \<open>
  C9, as stated, fails: the citation of a document of 300 characters carries all 300 of
  them, under the field \<open>content\<close>.
\<close>

theorem citation_content_unbounded_counterexample:
  "150 < length (orElse (content (hd (formatCitations [longDoc]))) [])"
  by (simp add: formatCitations_def longDoc_def orElse_def)

section \<open>Properties of the Tavily search tool\<close>

lemma snd_validateVinUniQuery: "snd (validateVinUniQuery env query) = [ClassifyCall query]"
  by (simp add: validateVinUniQuery_def)

lemma isValid_validateVinUniQuery:
  "isValid (fst (validateVinUniQuery env query))
     = (\<forall>c. openaiClassify env query = Inr (Some c) \<longrightarrow> trim c \<noteq> ''DENIED'')"
  by (auto simp: validateVinUniQuery_def Let_def split: sum.splits option.splits)

lemma reason_validateVinUniQuery:
  "\<not> isValid (fst (validateVinUniQuery env query))
     \<Longrightarrow> reason (fst (validateVinUniQuery env query)) = Some VALIDATION_REASON"
  by (auto simp: validateVinUniQuery_def Let_def split: sum.splits option.splits if_splits)

lemma VALIDATION_REASON_nonempty: "VALIDATION_REASON \<noteq> []"
  by (simp add: VALIDATION_REASON_def)

lemma DENIED_MESSAGE_nonempty: "DENIED_MESSAGE \<noteq> []"
  by (simp add: DENIED_MESSAGE_def)

lemma performDualDomainSearch_policy_call:
  "TavilySearchCall (''site:policy.vinuni.edu.vn '' @ query) MAX_RESULTS_PER_DOMAIN
     \<in> set (snd (performDualDomainSearch env query))"
  by (simp add: performDualDomainSearch_def Let_def split: sum.splits)

lemma performDualDomainSearch_totalCount:
  "fst (performDualDomainSearch env query) = Inr sr \<Longrightarrow> totalCount sr = length (results sr)"
  by (auto simp: performDualDomainSearch_def Let_def split: sum.splits)

text \<open>The run of the Tavily tool when the validation denies.\<close>

lemma fetchTavilyFileSearch_try_denied:
  "\<not> isValid (fst (validateVinUniQuery env query)) \<Longrightarrow>
   fetchTavilyFileSearch_try env query
     = (Inr ((plainResult VALIDATION_REASON [])\<lparr>denied := True\<rparr>),
        [Progress ''validate-query'', ClassifyCall query])"
  using reason_validateVinUniQuery [of env query] snd_validateVinUniQuery [of env query]
  by (cases "validateVinUniQuery env query")
     (simp add: fetchTavilyFileSearch_try_def orElse_def VALIDATION_REASON_nonempty)

text \<open>The run of the Tavily tool when the validation allows the query.\<close>

lemma fetchTavilyFileSearch_try_valid:
  "isValid (fst (validateVinUniQuery env query)) \<Longrightarrow>
   snd (fetchTavilyFileSearch_try env query)
     = Progress ''validate-query'' # ClassifyCall query
         # Progress ''extract-keywords'' # Progress ''keywords-extracted''
         # snd (performDualDomainSearch env query)
         @ (case fst (performDualDomainSearch env query) of
              Inl e \<Rightarrow> []
            | Inr sr \<Rightarrow>
                if totalCount sr = 0 then []
                else [Progress ''search-complete'', Progress ''generate-answer'',
                      GenerateCall query (results sr)])"
  using snd_validateVinUniQuery [of env query]
  by (cases "validateVinUniQuery env query"; cases "performDualDomainSearch env query")
     (auto simp: fetchTavilyFileSearch_try_def generateAnswerWithContext_def
           split: sum.splits)

lemma snd_fetchTavilyFileSearch:
  "snd (fetchTavilyFileSearch env query) = snd (fetchTavilyFileSearch_try env query)"
  by (simp add: fetchTavilyFileSearch_def split: prod.splits sum.splits)

lemma fetchTavilyFileSearch_denied_run:
  "\<not> isValid (fst (validateVinUniQuery env query)) \<Longrightarrow>
   fetchTavilyFileSearch env query
     = (Inr ((plainResult VALIDATION_REASON [])\<lparr>denied := True\<rparr>),
        [Progress ''validate-query'', ClassifyCall query])"
  by (simp add: fetchTavilyFileSearch_def fetchTavilyFileSearch_try_denied)

lemma fetchTavilyFileSearch_trace_head:
  "\<exists>rest. snd (fetchTavilyFileSearch env query)
            = Progress ''validate-query'' # ClassifyCall query # rest"
proof (cases "isValid (fst (validateVinUniQuery env query))")
  case True
  then show ?thesis
    by (simp add: snd_fetchTavilyFileSearch fetchTavilyFileSearch_try_valid)
next
  case False
  then show ?thesis by (simp add: fetchTavilyFileSearch_denied_run)
qed

lemma NO_RESULTS_MESSAGE_nonempty: "NO_RESULTS_MESSAGE \<noteq> []"
  by (simp add: NO_RESULTS_MESSAGE_def)

lemma NOT_FOUND_MESSAGE_nonempty: "NOT_FOUND_MESSAGE \<noteq> []"
  by (simp add: NOT_FOUND_MESSAGE_def)

lemma DEFAULT_ERROR_MESSAGE_nonempty: "DEFAULT_ERROR_MESSAGE \<noteq> []"
  by (simp add: DEFAULT_ERROR_MESSAGE_def)

lemma fetchTavilyFileSearch_try_wellformed:
  "fst (fetchTavilyFileSearch_try env query) = Inr r \<Longrightarrow> answer r \<noteq> [] \<and> citations r \<noteq> None"
  by (cases "validateVinUniQuery env query"; cases "performDualDomainSearch env query")
     (auto simp: fetchTavilyFileSearch_try_def generateAnswerWithContext_def plainResult_def
           orElse_def DENIED_MESSAGE_nonempty NO_RESULTS_MESSAGE_nonempty NOT_FOUND_MESSAGE_nonempty
           split: sum.splits option.splits if_splits)

lemma fetchTavilyFileSearch_wellformed:
  "fst (fetchTavilyFileSearch env query) = Inr r \<Longrightarrow> answer r \<noteq> [] \<and> citations r \<noteq> None"
  using fetchTavilyFileSearch_try_wellformed [of env query]
  by (cases "fetchTavilyFileSearch_try env query")
     (auto simp: fetchTavilyFileSearch_def plainResult_def DEFAULT_ERROR_MESSAGE_nonempty
           split: sum.splits)

text \<open>
  The Tavily tool denies in two places: when the validation denies, and when the
  generation replies exactly \<open>DENIED\<close>.
\<close>

lemma fetchTavilyFileSearch_denied_iff:
  "fst (fetchTavilyFileSearch env query) = Inr r \<Longrightarrow>
   denied r
     = (\<not> isValid (fst (validateVinUniQuery env query))
        \<or> (\<exists>sr. fst (performDualDomainSearch env query) = Inr sr \<and> totalCount sr \<noteq> 0
                 \<and> openaiGenerate env query (results sr) = Inr (Some ''DENIED'')))"
  by (cases "validateVinUniQuery env query"; cases "performDualDomainSearch env query")
     (auto simp: fetchTavilyFileSearch_def fetchTavilyFileSearch_try_def
           generateAnswerWithContext_def plainResult_def
           split: sum.splits option.splits if_splits)

text \<open>
  C7. When the classification call throws, or its response has no content, the validation
  allows the query, and the Tavily tool goes on to the policy search.
\<close>

theorem validateVinUniQuery_fails_open:
  assumes "openaiClassify env query = Inl e \<or> openaiClassify env query = Inr None"
  shows "validateVinUniQuery env query = (\<lparr>isValid = True, reason = None\<rparr>, [ClassifyCall query])
         \<and> TavilySearchCall (''site:policy.vinuni.edu.vn '' @ query) MAX_RESULTS_PER_DOMAIN
             \<in> set (snd (fetchTavilyFileSearch env query))"
proof
  from assms show v: "validateVinUniQuery env query
                        = (\<lparr>isValid = True, reason = None\<rparr>, [ClassifyCall query])"
    by (auto simp: validateVinUniQuery_def)
  then have "isValid (fst (validateVinUniQuery env query))" by simp
  then show "TavilySearchCall (''site:policy.vinuni.edu.vn '' @ query) MAX_RESULTS_PER_DOMAIN
               \<in> set (snd (fetchTavilyFileSearch env query))"
    using performDualDomainSearch_policy_call [of query env]
    by (simp add: snd_fetchTavilyFileSearch fetchTavilyFileSearch_try_valid)
qed

text \<open>C7 in the example world, with a classification call that times out.\<close>

theorem validateVinUniQuery_fails_open_witness:
  "openaiClassify (exampleEnv None (Inr None) (Inl (Error ''timeout'')) (Inr None)) ''financial aid''
     = Inl (Error ''timeout'')
   \<and> validateVinUniQuery (exampleEnv None (Inr None) (Inl (Error ''timeout'')) (Inr None)) ''financial aid''
       = (\<lparr>isValid = True, reason = None\<rparr>, [ClassifyCall ''financial aid''])
   \<and> TavilySearchCall ''site:policy.vinuni.edu.vn financial aid'' 5
       \<in> set (snd (fetchTavilyFileSearch
                     (exampleEnv None (Inr None) (Inl (Error ''timeout'')) (Inr None)) ''financial aid''))"
proof -
  let ?E = "exampleEnv None (Inr None) (Inl (Error ''timeout'')) (Inr None)"
  have c: "openaiClassify ?E ''financial aid'' = Inl (Error ''timeout'')"
    by (simp add: exampleEnv_def)
  then have "openaiClassify ?E ''financial aid'' = Inl (Error ''timeout'')
             \<or> openaiClassify ?E ''financial aid'' = Inr None" ..
  from validateVinUniQuery_fails_open [OF this] c show ?thesis
    by (simp add: MAX_RESULTS_PER_DOMAIN_def)
qed

text \<open>
  C8. For an allowed query whose search found a non-empty bundle, a generation that
  replies exactly \<open>NOT_FOUND\<close> gives the fixed not-found answer, not denied, with the
  citations of the whole bundle.
\<close>

theorem not_found_keeps_citations:
  assumes "isValid (fst (validateVinUniQuery env query))"
      and "fst (performDualDomainSearch env query) = Inr sr"
      and "results sr \<noteq> []"
      and "openaiGenerate env query (results sr) = Inr (Some ''NOT_FOUND'')"
  shows "\<exists>r. fst (fetchTavilyFileSearch env query) = Inr r
             \<and> answer r = NOT_FOUND_MESSAGE
             \<and> citations r = Some (formatCitations (results sr))
             \<and> \<not> denied r"
proof -
  from assms(2) have "totalCount sr = length (results sr)"
    by (rule performDualDomainSearch_totalCount)
  with assms(3) have n: "totalCount sr \<noteq> 0" by simp
  have g: "fst (generateAnswerWithContext env query (results sr)) = Inr ''NOT_FOUND''"
    using assms(4) by (simp add: generateAnswerWithContext_def)
  have "fst (fetchTavilyFileSearch_try env query)
          = Inr ((plainResult NOT_FOUND_MESSAGE (formatCitations (results sr)))
                   \<lparr>searchStats := Some (tavilyStats sr)\<rparr>)"
    using assms(1,2) n g
    by (cases "validateVinUniQuery env query"; cases "performDualDomainSearch env query";
        cases "generateAnswerWithContext env query (results sr)")
       (simp add: fetchTavilyFileSearch_try_def)
  then show ?thesis
    by (cases "fetchTavilyFileSearch_try env query")
       (simp add: fetchTavilyFileSearch_def plainResult_def)
qed

text \<open>C8 in the example world, with a generator that replies \<open>NOT_FOUND\<close>.\<close>

theorem not_found_keeps_citations_witness:
  "isValid (fst (validateVinUniQuery
                   (exampleEnv None (Inr None) (Inr (Some ''VALID'')) (Inr (Some ''NOT_FOUND'')))
                   ''financial aid''))
   \<and> fst (performDualDomainSearch
             (exampleEnv None (Inr None) (Inr (Some ''VALID'')) (Inr (Some ''NOT_FOUND'')))
             ''financial aid'')
       = Inr \<lparr>results = [policyAid, mirrorAid], policyCount = 1, mainCount = 1, totalCount = 2,
               generalSearchTotal = 2, filteredFromGeneral = 1\<rparr>
   \<and> [policyAid, mirrorAid] \<noteq> []
   \<and> openaiGenerate (exampleEnv None (Inr None) (Inr (Some ''VALID'')) (Inr (Some ''NOT_FOUND'')))
        ''financial aid'' [policyAid, mirrorAid] = Inr (Some ''NOT_FOUND'')
   \<and> (\<exists>r. fst (fetchTavilyFileSearch
                  (exampleEnv None (Inr None) (Inr (Some ''VALID'')) (Inr (Some ''NOT_FOUND'')))
                  ''financial aid'') = Inr r
           \<and> answer r = NOT_FOUND_MESSAGE
           \<and> citations r = Some (formatCitations [policyAid, mirrorAid])
           \<and> \<not> denied r)"
proof -
  let ?E = "exampleEnv None (Inr None) (Inr (Some ''VALID'')) (Inr (Some ''NOT_FOUND''))"
  let ?sr = "\<lparr>results = [policyAid, mirrorAid], policyCount = 1, mainCount = 1, totalCount = 2,
               generalSearchTotal = 2, filteredFromGeneral = 1\<rparr>"
  have t: "trim ''VALID'' = ''VALID''" by code_simp
  have v: "isValid (fst (validateVinUniQuery ?E ''financial aid''))"
    by (simp add: validateVinUniQuery_def exampleEnv_def t)
  have s: "fst (performDualDomainSearch ?E ''financial aid'') = Inr ?sr"
    by (rule exampleEnv_search)
  have n: "results ?sr \<noteq> []" by simp
  have g: "openaiGenerate ?E ''financial aid'' (results ?sr) = Inr (Some ''NOT_FOUND'')"
    by (simp add: exampleEnv_def)
  from not_found_keeps_citations [OF v s n g] v s g show ?thesis by simp
qed

section \<open>Properties of the Tavily search tool on a stream that may throw\<close>

text \<open>On a stream that accepts every write, the functions with the stream as a parameter
  are the functions of the tool.\<close>

lemma writeStep_open [simp]: "writeStep (\<lambda>step. None) s t rest = rest (t @ [Progress s])"
  by (simp add: writeStep_def)

lemma performDualDomainSearch_stream_open:
  "performDualDomainSearch_stream (\<lambda>step. None) env query = performDualDomainSearch env query"
  by (simp add: performDualDomainSearch_stream_def performDualDomainSearch_def Let_def
      split: sum.splits)

lemma fetchTavilyFileSearch_stream_try_open:
  "fetchTavilyFileSearch_stream_try (\<lambda>step. None) env query = fetchTavilyFileSearch_try env query"
  by (cases "validateVinUniQuery env query"; cases "performDualDomainSearch env query")
     (auto simp: fetchTavilyFileSearch_stream_try_def fetchTavilyFileSearch_try_def
        performDualDomainSearch_stream_open split: sum.splits prod.splits)

lemma fetchTavilyFileSearch_stream_open:
  "fetchTavilyFileSearch_stream (\<lambda>step. None) env query = fetchTavilyFileSearch env query"
  by (simp add: fetchTavilyFileSearch_stream_def fetchTavilyFileSearch_def
      fetchTavilyFileSearch_stream_try_open)

lemma performDualDomainSearch_stream_Inr:
  "fst (performDualDomainSearch_stream w env query) = Inr sr
     \<Longrightarrow> fst (performDualDomainSearch env query) = Inr sr"
  by (auto simp: performDualDomainSearch_stream_def performDualDomainSearch_def writeStep_def
        Let_def split: sum.splits option.splits)

lemma fetchTavilyFileSearch_stream_try_result:
  "fst (fetchTavilyFileSearch_stream_try w env query) = Inr r \<Longrightarrow>
   answer r \<noteq> [] \<and> citations r \<noteq> None
   \<and> (denied r \<longrightarrow>
        citations r = Some []
        \<and> (\<not> isValid (fst (validateVinUniQuery env query))
            \<or> (\<exists>sr. fst (performDualDomainSearch env query) = Inr sr \<and> results sr \<noteq> []
                    \<and> openaiGenerate env query (results sr) = Inr (Some ''DENIED''))))"
proof -
  assume a: "fst (fetchTavilyFileSearch_stream_try w env query) = Inr r"
  obtain v t1 where v: "validateVinUniQuery env query = (v, t1)" by (cases "validateVinUniQuery env query")
  obtain s t4 where s: "performDualDomainSearch_stream w env query = (s, t4)"
    by (cases "performDualDomainSearch_stream w env query")
  show ?thesis
  proof (cases s)
    case (Inl e)
    with a v s show ?thesis
      by (auto simp: fetchTavilyFileSearch_stream_try_def writeStep_def plainResult_def orElse_def
            DENIED_MESSAGE_nonempty split: option.splits if_splits)
  next
    case (Inr sr)
    with s have p: "fst (performDualDomainSearch env query) = Inr sr"
      by (intro performDualDomainSearch_stream_Inr [of w]) simp
    then have c: "totalCount sr = length (results sr)" by (rule performDualDomainSearch_totalCount)
    from a v s Inr p c show ?thesis
      by (auto simp: fetchTavilyFileSearch_stream_try_def writeStep_def plainResult_def orElse_def
            generateAnswerWithContext_def
            DENIED_MESSAGE_nonempty NO_RESULTS_MESSAGE_nonempty NOT_FOUND_MESSAGE_nonempty
            split: option.splits if_splits sum.splits)
  qed
qed

lemma fetchTavilyFileSearch_stream_result:
  "fst (fetchTavilyFileSearch_stream w env query) = Inr r \<Longrightarrow>
   answer r \<noteq> [] \<and> citations r \<noteq> None
   \<and> (denied r \<longrightarrow>
        citations r = Some []
        \<and> (\<not> isValid (fst (validateVinUniQuery env query))
            \<or> (\<exists>sr. fst (performDualDomainSearch env query) = Inr sr \<and> results sr \<noteq> []
                    \<and> openaiGenerate env query (results sr) = Inr (Some ''DENIED''))))"
  using fetchTavilyFileSearch_stream_try_result [of w env query]
  by (cases "fetchTavilyFileSearch_stream_try w env query")
     (auto simp: fetchTavilyFileSearch_stream_def plainResult_def DEFAULT_ERROR_MESSAGE_nonempty
           split: sum.splits)

lemma fetchTavilyFileSearch_stream_Inr:
  "\<exists>r. fst (fetchTavilyFileSearch_stream w env query) = Inr r"
  by (simp add: fetchTavilyFileSearch_stream_def split: prod.splits sum.splits)

lemma fetchTavilyFileSearch_stream_denied_trace:
  "\<not> isValid (fst (validateVinUniQuery env query)) \<Longrightarrow>
   filter isTavilySearch (snd (fetchTavilyFileSearch_stream w env query)) = []"
  using snd_validateVinUniQuery [of env query]
  by (cases "validateVinUniQuery env query")
     (auto simp: fetchTavilyFileSearch_stream_def fetchTavilyFileSearch_stream_try_def
        writeStep_def isTavilySearch_def split: option.splits)

lemma fetchTavilyFileSearch_denied_cond:
  "fst (fetchTavilyFileSearch env query) = Inr tr \<Longrightarrow>
   denied tr
     = (\<not> isValid (fst (validateVinUniQuery env query))
        \<or> (\<exists>sr. fst (performDualDomainSearch env query) = Inr sr \<and> results sr \<noteq> []
                 \<and> openaiGenerate env query (results sr) = Inr (Some ''DENIED'')))"
proof -
  assume a: "fst (fetchTavilyFileSearch env query) = Inr tr"
  have "(\<exists>sr. fst (performDualDomainSearch env query) = Inr sr \<and> totalCount sr \<noteq> 0
                 \<and> openaiGenerate env query (results sr) = Inr (Some ''DENIED''))
        = (\<exists>sr. fst (performDualDomainSearch env query) = Inr sr \<and> results sr \<noteq> []
                 \<and> openaiGenerate env query (results sr) = Inr (Some ''DENIED''))"
    using performDualDomainSearch_totalCount [of env query] by auto
  with fetchTavilyFileSearch_denied_iff [OF a] show ?thesis by simp
qed

section \<open>Properties of the dual search tool\<close>

lemma step1_no_tavily: "filter isTavilySearch (snd (step1_fileSearch env query)) = []"
  by (auto simp: step1_fileSearch_def fileSearchCatch_def writeStep_def isTavilySearch_def Let_def
      split: sum.splits option.splits)

lemma step1_state:
  "fst (step1_fileSearch env query) = Inr st \<Longrightarrow>
   st = (if truthy (VECTOR_STORE_ID env)
         then (case fetchFileSearch env query (orElse (VECTOR_STORE_ID env) []) of
                 Inl e \<Rightarrow> initialState
               | Inr r \<Rightarrow> afterFileSearch r)
         else initialState)"
  by (auto simp: step1_fileSearch_def fileSearchCatch_def writeStep_def Let_def
      split: sum.splits option.splits if_splits)

lemma hasFileResults_afterFileSearch:
  "hasFileResults (afterFileSearch r)
     = (\<exists>f. r = Some f \<and> answer f \<noteq> [] \<and> answer f \<noteq> FILE_DENIED_MESSAGE
            \<and> answer f \<noteq> DEFAULT_ERROR_MESSAGE)"
  by (auto simp: afterFileSearch_def initialState_def split: option.splits)

lemma hasFileResults_step1:
  "fst (step1_fileSearch env query) = Inr st \<Longrightarrow>
   hasFileResults st
     = (truthy (VECTOR_STORE_ID env)
        \<and> (\<exists>f. fetchFileSearch env query (orElse (VECTOR_STORE_ID env) []) = Inr (Some f)
                \<and> answer f \<noteq> [] \<and> answer f \<noteq> FILE_DENIED_MESSAGE
                \<and> answer f \<noteq> DEFAULT_ERROR_MESSAGE))"
  by (drule step1_state)
     (auto simp: hasFileResults_afterFileSearch initialState_def split: sum.splits)

lemma step1_usable_state:
  "fst (step1_fileSearch env query) = Inr st \<Longrightarrow> truthy (VECTOR_STORE_ID env) \<Longrightarrow>
   fetchFileSearch env query (orElse (VECTOR_STORE_ID env) []) = Inr (Some f) \<Longrightarrow>
   answer f \<noteq> [] \<and> answer f \<noteq> FILE_DENIED_MESSAGE \<and> answer f \<noteq> DEFAULT_ERROR_MESSAGE \<Longrightarrow>
   st = \<lparr>combinedAnswer = ''## File Database Results'' @ nl @ nl @ answer f,
         combinedCitations = orEmpty (citations f), hasFileResults = True,
         hasTavilyResults = False, fileSearchResults = Some f, tavilyResults = None\<rparr>"
  by (drule step1_state) (simp add: afterFileSearch_def initialState_def)

lemma step1_invariant:
  "fst (step1_fileSearch env query) = Inr st \<Longrightarrow>
   \<not> hasTavilyResults st \<and> (combinedAnswer st \<noteq> [] \<or> \<not> hasFileResults st)"
  by (drule step1_state)
     (auto simp: afterFileSearch_def initialState_def split: sum.splits option.splits if_splits)

text \<open>The early return of step 2 is the denial of the Tavily tool, taken only when the file
  database gave no usable answer.\<close>

lemma step2_Inl_result:
  "fst (step2_tavilySearch env query st) = Inr (Inl r) \<Longrightarrow>
   truthy (TAVILY_API_KEY env) \<and> \<not> hasFileResults st
   \<and> (\<exists>tr. fst (fetchTavilyFileSearch_stream (writeData env) env query) = Inr tr \<and> denied tr
           \<and> r = (plainResult (answer tr) [])\<lparr>denied := True\<rparr>)"
  by (cases "fetchTavilyFileSearch_stream (writeData env) env query")
     (auto simp: step2_tavilySearch_def tavilySearchCatch_def writeStep_def
           split: sum.splits option.splits if_splits)

lemma step2_answer_invariant:
  assumes "fst (step2_tavilySearch env query st) = Inr (Inr st')"
      and "\<not> hasTavilyResults st"
      and "combinedAnswer st \<noteq> [] \<or> \<not> hasFileResults st"
  shows "combinedAnswer st' \<noteq> [] \<or> (\<not> hasFileResults st' \<and> \<not> hasTavilyResults st')"
  using assms
  by (cases "fetchTavilyFileSearch_stream (writeData env) env query")
     (auto simp: step2_tavilySearch_def tavilySearchCatch_def withTavilyResults_def writeStep_def
           split: sum.splits option.splits if_splits)

lemma step2_trace_denied:
  assumes "\<not> isValid (fst (validateVinUniQuery env query))"
  shows "filter isTavilySearch (snd (step2_tavilySearch env query st)) = []"
proof -
  obtain x t where x: "fetchTavilyFileSearch_stream (writeData env) env query = (x, t)"
    by (cases "fetchTavilyFileSearch_stream (writeData env) env query")
  with fetchTavilyFileSearch_stream_denied_trace [OF assms, of "writeData env"]
  have t: "filter isTavilySearch t = []" by simp
  have p: "\<not> isTavilySearch (Progress s)" for s by (simp add: isTavilySearch_def)
  have c: "filter isTavilySearch (snd (tavilySearchCatch env s u)) = filter isTavilySearch u" for s u
    by (simp add: tavilySearchCatch_def writeStep_def p split: option.splits)
  show ?thesis
    unfolding step2_tavilySearch_def writeStep_def x
    by (cases "writeData env ''tavily-search-start''"; cases x;
        cases "writeData env ''tavily-search-complete''";
        cases "writeData env ''tavily-search-denied''";
        cases "writeData env ''tavily-search-skip''")
       (simp_all add: t p c)
qed

lemma step3_not_denied: "\<not> denied (step3_combine env st)"
  by (simp add: step3_combine_def plainResult_def)

lemma step3_citations: "citations (step3_combine env st) \<noteq> None"
  by (simp add: step3_combine_def plainResult_def)

lemma NEITHER_MESSAGE_nonempty: "NEITHER_MESSAGE \<noteq> []"
  by (simp add: NEITHER_MESSAGE_def)

lemma UNEXPECTED_MESSAGE_nonempty: "UNEXPECTED_MESSAGE \<noteq> []"
  by (simp add: UNEXPECTED_MESSAGE_def)

lemma step3_answer:
  assumes "combinedAnswer st \<noteq> [] \<or> (\<not> hasFileResults st \<and> \<not> hasTavilyResults st)"
  shows "answer (step3_combine env st) \<noteq> []"
proof (cases "\<not> hasFileResults st \<and> \<not> hasTavilyResults st")
  case True
  then show ?thesis by (simp add: step3_combine_def plainResult_def NEITHER_MESSAGE_nonempty)
next
  case False
  with assms have "combinedAnswer st \<noteq> []" by blast
  with False show ?thesis
    by (simp add: step3_combine_def plainResult_def NEITHER_MESSAGE_nonempty)
qed

text \<open>What the \<open>try\<close> block of \<open>execute\<close> returns: the denial of step 2, or the answer of step 3.\<close>

lemma execute_try_result:
  "fst (execute_try env query) = Inr r \<Longrightarrow>
   \<exists>st1. fst (step1_fileSearch env query) = Inr st1
     \<and> (fst (step2_tavilySearch env query st1) = Inr (Inl r)
         \<or> (\<exists>st2. fst (step2_tavilySearch env query st1) = Inr (Inr st2)
                  \<and> r = step3_combine env st2))"
  by (cases "step1_fileSearch env query")
     (auto simp: execute_try_def writeStep_def split: sum.splits prod.splits option.splits)

lemma execute_result:
  "fst (execute env query) = Inr r \<Longrightarrow>
   fst (execute_try env query) = Inr r \<or> r = plainResult UNEXPECTED_MESSAGE []"
  by (cases "execute_try env query")
     (auto simp: execute_def writeStep_def split: sum.splits option.splits)

lemma execute_throws:
  "fst (execute env query) = Inl e \<Longrightarrow> writeData env ''error'' = Some e"
  by (cases "execute_try env query")
     (auto simp: execute_def writeStep_def split: sum.splits option.splits)

lemma execute_returns:
  "writeData env ''error'' = None \<Longrightarrow> \<exists>r. fst (execute env query) = Inr r"
  by (cases "execute_try env query")
     (auto simp: execute_def writeStep_def split: sum.splits option.splits)

lemma execute_try_wellformed:
  assumes "fst (execute_try env query) = Inr r"
  shows "answer r \<noteq> [] \<and> citations r \<noteq> None"
proof -
  from execute_try_result [OF assms] obtain st1 where
    s1: "fst (step1_fileSearch env query) = Inr st1" and
    s2: "fst (step2_tavilySearch env query st1) = Inr (Inl r)
         \<or> (\<exists>st2. fst (step2_tavilySearch env query st1) = Inr (Inr st2)
                  \<and> r = step3_combine env st2)"
    by blast
  from s2 show ?thesis
  proof
    assume "fst (step2_tavilySearch env query st1) = Inr (Inl r)"
    then obtain tr :: tool_result
      where tr: "fst (fetchTavilyFileSearch_stream (writeData env) env query) = Inr tr"
        and r: "r = (plainResult (answer tr) [])\<lparr>denied := True\<rparr>"
      using step2_Inl_result by blast
    from tr have "answer tr \<noteq> []" using fetchTavilyFileSearch_stream_result by blast
    with r show ?thesis by (simp add: plainResult_def)
  next
    assume "\<exists>st2. fst (step2_tavilySearch env query st1) = Inr (Inr st2) \<and> r = step3_combine env st2"
    then obtain st2 where st2: "fst (step2_tavilySearch env query st1) = Inr (Inr st2)"
      and r: "r = step3_combine env st2" by blast
    from st2 step1_invariant [OF s1]
    have "combinedAnswer st2 \<noteq> [] \<or> (\<not> hasFileResults st2 \<and> \<not> hasTavilyResults st2)"
      by (intro step2_answer_invariant) auto
    then have "answer (step3_combine env st2) \<noteq> []" by (rule step3_answer)
    with r step3_citations [of env st2] show ?thesis by simp
  qed
qed

lemma execute_trace_denied:
  assumes "\<not> isValid (fst (validateVinUniQuery env query))"
  shows "filter isTavilySearch (snd (execute env query)) = []"
proof -
  have t: "filter isTavilySearch (snd (execute_try env query)) = []"
    using step1_no_tavily [of env query] step2_trace_denied [OF assms, of _]
    by (cases "step1_fileSearch env query")
       (auto simp: execute_try_def writeStep_def isTavilySearch_def
             split: sum.splits prod.splits option.splits,
        (metis snd_conv)+)
  then show ?thesis
    by (cases "execute_try env query")
       (auto simp: execute_def writeStep_def isTavilySearch_def split: sum.splits option.splits)
qed

text \<open>The steps and \<open>execute\<close> on a data stream that accepts every write.\<close>

lemma step1_open:
  "writeData env = (\<lambda>step. None) \<Longrightarrow> \<exists>st. fst (step1_fileSearch env query) = Inr st"
  by (simp add: step1_fileSearch_def fileSearchCatch_def Let_def split: sum.splits)

lemma step2_open:
  assumes "writeData env = (\<lambda>step. None)"
  shows "fst (step2_tavilySearch env query st)
     = (if truthy (TAVILY_API_KEY env)
        then (case fst (fetchTavilyFileSearch env query) of
                Inl e \<Rightarrow> Inr (Inr st)
              | Inr tr \<Rightarrow>
                  if answer tr \<noteq> [] \<and> \<not> denied tr \<and> answer tr \<noteq> DEFAULT_ERROR_MESSAGE
                  then Inr (Inr (withTavilyResults st tr))
                  else if denied tr \<and> \<not> hasFileResults st
                  then Inr (Inl ((plainResult (answer tr) [])\<lparr>denied := True\<rparr>))
                  else Inr (Inr (st\<lparr>tavilyResults := Some tr\<rparr>)))
        else Inr (Inr st))"
  by (cases "fetchTavilyFileSearch env query")
     (simp add: step2_tavilySearch_def tavilySearchCatch_def assms
        fetchTavilyFileSearch_stream_open split: sum.splits)

lemma execute_open:
  assumes "writeData env = (\<lambda>step. None)" and "fst (step1_fileSearch env query) = Inr st1"
  shows "fst (execute env query)
     = (case fst (step2_tavilySearch env query st1) of
          Inl e \<Rightarrow> Inr (plainResult UNEXPECTED_MESSAGE [])
        | Inr (Inl r) \<Rightarrow> Inr r
        | Inr (Inr st2) \<Rightarrow> Inr (step3_combine env st2))"
  using assms
  by (cases "step1_fileSearch env query"; cases "step2_tavilySearch env query st1")
     (simp add: execute_def execute_try_def split: sum.splits)

lemma exampleEnv_open: "writeData (exampleEnv vs fo co go) = (\<lambda>step. None)"
  by (simp add: exampleEnv_def)

text \<open>The effects of step 1 stand first in the effects of \<open>execute\<close>.\<close>

lemma step1_trace_head:
  assumes "truthy (VECTOR_STORE_ID env)" and "writeData env ''file-search-start'' = None"
  shows "\<exists>rest. snd (step1_fileSearch env query)
           = Progress ''file-search-start''
               # FileSearchCall query (orElse (VECTOR_STORE_ID env) []) # rest"
  using assms
  by (cases "fetchFileSearch env query (orElse (VECTOR_STORE_ID env) [])";
      cases "writeData env ''file-search-complete''";
      cases "writeData env ''file-search-error''")
     (simp_all add: step1_fileSearch_def fileSearchCatch_def writeStep_def Let_def)

lemma execute_try_trace_prefix:
  "prefix (snd (step1_fileSearch env query)) (snd (execute_try env query))"
proof -
  obtain x1 t1 where s1: "step1_fileSearch env query = (x1, t1)"
    by (cases "step1_fileSearch env query")
  show ?thesis
  proof (cases x1)
    case (Inl e)
    with s1 show ?thesis by (simp add: execute_try_def)
  next
    case (Inr st1)
    obtain x2 t2 where s2: "step2_tavilySearch env query st1 = (x2, t2)"
      by (cases "step2_tavilySearch env query st1")
    from s1 Inr s2 show ?thesis
      by (cases "writeData env ''combining-results''")
         (simp_all add: execute_try_def writeStep_def split: sum.splits)
  qed
qed

lemma execute_trace_prefix:
  "prefix (snd (step1_fileSearch env query)) (snd (execute env query))"
proof -
  obtain x t where e: "execute_try env query = (x, t)" by (cases "execute_try env query")
  with execute_try_trace_prefix [of env query]
  have p: "prefix (snd (step1_fileSearch env query)) t" by simp
  then have "prefix (snd (step1_fileSearch env query)) (t @ [Progress ''error''])"
    by (rule prefix_prefix)
  with e p show ?thesis
    by (cases "writeData env ''error''")
       (simp_all add: execute_def writeStep_def split: sum.splits)
qed

text \<open>
  C1 does not hold of the code: on a data stream that is closed, so that every write
  throws, the first write of \<open>execute\<close> throws, the \<open>catch\<close> block's own write of the \<open>error\<close>
  event throws too, and \<open>execute\<close> ends with that exception and no result.
\<close>

theorem execute_throws_on_closed_stream:
  "execute closedStreamEnv ''weather'' = (Inl (Error ''stream closed''), [])"
  by (simp add: execute_def execute_try_def step1_fileSearch_def writeStep_def
      closedStreamEnv_def)

text \<open>
  When the write of the \<open>error\<close> event does not throw, \<open>execute\<close> returns a result with a
  non-empty answer and a citations array, whatever the backends and the other writes do;
  and an exception \<open>execute\<close> ends with is the one that write threw.
\<close>

theorem execute_returns_unless_error_write_throws:
  "(writeData env ''error'' = None \<longrightarrow>
      (\<exists>r. fst (execute env query) = Inr r \<and> answer r \<noteq> [] \<and> citations r \<noteq> None))
   \<and> (\<forall>e. fst (execute env query) = Inl e \<longrightarrow> writeData env ''error'' = Some e)"
proof (intro conjI allI impI)
  assume w: "writeData env ''error'' = None"
  then obtain r where r: "fst (execute env query) = Inr r" using execute_returns by blast
  from execute_result [OF r] show "\<exists>r. fst (execute env query) = Inr r \<and> answer r \<noteq> [] \<and> citations r \<noteq> None"
  proof
    assume "fst (execute_try env query) = Inr r"
    then have "answer r \<noteq> [] \<and> citations r \<noteq> None" by (rule execute_try_wellformed)
    with r show ?thesis by blast
  next
    assume "r = plainResult UNEXPECTED_MESSAGE []"
    then have "answer r \<noteq> [] \<and> citations r \<noteq> None"
      by (simp add: plainResult_def UNEXPECTED_MESSAGE_nonempty)
    with r show ?thesis by blast
  qed
next
  fix e
  assume "fst (execute env query) = Inl e"
  then show "writeData env ''error'' = Some e" by (rule execute_throws)
qed

text \<open>Both parts in the example world: with every backend call failing, and with the stream closed.\<close>

theorem execute_returns_unless_error_write_throws_witness:
  "writeData (exampleEnv None (Inr None) (Inl (Error ''timeout'')) (Inl (Error ''timeout''))) ''error'' = None
   \<and> (\<exists>r. fst (execute (exampleEnv None (Inr None) (Inl (Error ''timeout'')) (Inl (Error ''timeout'')))
                   ''financial aid'') = Inr r
           \<and> answer r \<noteq> [] \<and> citations r \<noteq> None)
   \<and> fst (execute closedStreamEnv ''weather'') = Inl (Error ''stream closed'')
   \<and> writeData closedStreamEnv ''error'' = Some (Error ''stream closed'')"
proof -
  let ?E = "exampleEnv None (Inr None) (Inl (Error ''timeout'')) (Inl (Error ''timeout''))"
  have w: "writeData ?E ''error'' = None" by (simp add: exampleEnv_def)
  have c: "fst (execute closedStreamEnv ''weather'') = Inl (Error ''stream closed'')"
    by (simp add: execute_def execute_try_def step1_fileSearch_def writeStep_def
        closedStreamEnv_def)
  from execute_returns_unless_error_write_throws [of ?E "''financial aid''"] w
  have a: "\<exists>r. fst (execute ?E ''financial aid'') = Inr r \<and> answer r \<noteq> [] \<and> citations r \<noteq> None"
    by blast
  from execute_returns_unless_error_write_throws [of closedStreamEnv "''weather''"] c
  have b: "writeData closedStreamEnv ''error'' = Some (Error ''stream closed'')" by blast
  from w a c b show ?thesis by blast
qed

text \<open>
  C4, as the code has it. Every run of the Tavily tool starts with the validation, and for
  a query the classifier denies the tool returns the denial with no citations after the
  classification call alone; a run of the dual search tool then holds no Tavily search.
\<close>

theorem denied_query_issues_no_tavily_search:
  "(\<exists>rest. snd (fetchTavilyFileSearch env query)
             = Progress ''validate-query'' # ClassifyCall query # rest)
   \<and> (\<forall>c. openaiClassify env query = Inr (Some c) \<and> trim c = ''DENIED'' \<longrightarrow>
          fetchTavilyFileSearch env query
            = (Inr \<lparr>answer = VALIDATION_REASON, citations = Some [], denied = True,
                     searchQuery = None, keywords' = None, searchStats = None\<rparr>,
               [Progress ''validate-query'', ClassifyCall query])
          \<and> filter isTavilySearch (snd (execute env query)) = [])"
proof (intro conjI allI impI)
  show "\<exists>rest. snd (fetchTavilyFileSearch env query)
             = Progress ''validate-query'' # ClassifyCall query # rest"
    by (rule fetchTavilyFileSearch_trace_head)
next
  fix c
  assume "openaiClassify env query = Inr (Some c) \<and> trim c = ''DENIED''"
  then have d: "\<not> isValid (fst (validateVinUniQuery env query))"
    by (simp add: isValid_validateVinUniQuery)
  then show "fetchTavilyFileSearch env query
            = (Inr \<lparr>answer = VALIDATION_REASON, citations = Some [], denied = True,
                     searchQuery = None, keywords' = None, searchStats = None\<rparr>,
               [Progress ''validate-query'', ClassifyCall query])"
    by (simp add: fetchTavilyFileSearch_denied_run plainResult_def)
  from d show "filter isTavilySearch (snd (execute env query)) = []"
    by (rule execute_trace_denied)
qed

text \<open>C4, as the code has it, in the example world with a classifier that replies \<open>DENIED\<close>.\<close>

theorem denied_query_issues_no_tavily_search_witness:
  "openaiClassify (exampleEnv (Some ''vs_1'') (Inr None) (Inr (Some ''DENIED'')) (Inr None)) ''weather''
     = Inr (Some ''DENIED'')
   \<and> trim ''DENIED'' = ''DENIED''
   \<and> fst (fetchTavilyFileSearch (exampleEnv (Some ''vs_1'') (Inr None) (Inr (Some ''DENIED'')) (Inr None)) ''weather'')
       = Inr \<lparr>answer = VALIDATION_REASON, citations = Some [], denied = True,
               searchQuery = None, keywords' = None, searchStats = None\<rparr>
   \<and> filter isTavilySearch
         (snd (execute (exampleEnv (Some ''vs_1'') (Inr None) (Inr (Some ''DENIED'')) (Inr None)) ''weather''))
       = []"
proof -
  let ?E = "exampleEnv (Some ''vs_1'') (Inr None) (Inr (Some ''DENIED'')) (Inr None)"
  have c: "openaiClassify ?E ''weather'' = Inr (Some ''DENIED'')" by (simp add: exampleEnv_def)
  have t: "trim ''DENIED'' = ''DENIED''" by code_simp
  from denied_query_issues_no_tavily_search [of ?E "''weather''"] c t
  have "fetchTavilyFileSearch ?E ''weather''
            = (Inr \<lparr>answer = VALIDATION_REASON, citations = Some [], denied = True,
                     searchQuery = None, keywords' = None, searchStats = None\<rparr>,
               [Progress ''validate-query'', ClassifyCall ''weather''])
          \<and> filter isTavilySearch (snd (execute ?E ''weather'')) = []"
    by blast
  with c t show ?thesis by simp
qed

text \<open>
  C4, as stated, fails: the dual search tool searches the file database before the
  validation runs, so a denied query has issued a backend search.
\<close>

theorem denied_query_file_search_counterexample:
  "openaiClassify (exampleEnv (Some ''vs_1'') (Inr None) (Inr (Some ''DENIED'')) (Inr None)) ''weather''
     = Inr (Some ''DENIED'')
   \<and> snd (execute (exampleEnv (Some ''vs_1'') (Inr None) (Inr (Some ''DENIED'')) (Inr None)) ''weather'')
       = [Progress ''file-search-start'', FileSearchCall ''weather'' ''vs_1'',
          Progress ''file-search-complete'', Progress ''tavily-search-start'',
          Progress ''validate-query'', ClassifyCall ''weather'',
          Progress ''tavily-search-denied'']
   \<and> filter isBackendSearch
         (snd (execute (exampleEnv (Some ''vs_1'') (Inr None) (Inr (Some ''DENIED'')) (Inr None)) ''weather''))
       = [FileSearchCall ''weather'' ''vs_1'']"
  by code_simp

text \<open>
  With \<open>VECTOR_STORE_ID\<close> set, every run of \<open>execute\<close> whose first write is accepted starts
  with the search of the file database, before the validation of the Tavily tool.
\<close>

theorem file_search_precedes_validation:
  "truthy (VECTOR_STORE_ID env) \<and> writeData env ''file-search-start'' = None \<longrightarrow>
     (\<exists>rest. snd (execute env query)
        = Progress ''file-search-start''
            # FileSearchCall query (orElse (VECTOR_STORE_ID env) []) # rest)"
proof
  assume a: "truthy (VECTOR_STORE_ID env) \<and> writeData env ''file-search-start'' = None"
  then obtain r1 where "snd (step1_fileSearch env query)
           = Progress ''file-search-start''
               # FileSearchCall query (orElse (VECTOR_STORE_ID env) []) # r1"
    using step1_trace_head by blast
  with execute_trace_prefix [of env query]
  show "\<exists>rest. snd (execute env query)
        = Progress ''file-search-start''
            # FileSearchCall query (orElse (VECTOR_STORE_ID env) []) # rest"
    by (auto simp: prefix_def)
qed

text \<open>The same in the example world with a classifier that replies \<open>DENIED\<close>.\<close>

theorem file_search_precedes_validation_witness:
  "truthy (VECTOR_STORE_ID (exampleEnv (Some ''vs_1'') (Inr None) (Inr (Some ''DENIED'')) (Inr None)))
   \<and> writeData (exampleEnv (Some ''vs_1'') (Inr None) (Inr (Some ''DENIED'')) (Inr None))
        ''file-search-start'' = None
   \<and> (\<exists>rest. snd (execute (exampleEnv (Some ''vs_1'') (Inr None) (Inr (Some ''DENIED'')) (Inr None))
                      ''weather'')
        = Progress ''file-search-start'' # FileSearchCall ''weather'' ''vs_1'' # rest)"
proof -
  let ?D = "exampleEnv (Some ''vs_1'') (Inr None) (Inr (Some ''DENIED'')) (Inr None)"
  have v: "truthy (VECTOR_STORE_ID ?D)" and o: "orElse (VECTOR_STORE_ID ?D) [] = ''vs_1''"
    and w: "writeData ?D ''file-search-start'' = None"
    by (simp_all add: exampleEnv_def truthy_def orElse_def)
  from file_search_precedes_validation [of ?D "''weather''"] v w o
  have "\<exists>rest. snd (execute ?D ''weather'')
        = Progress ''file-search-start'' # FileSearchCall ''weather'' ''vs_1'' # rest"
    by simp
  with v w show ?thesis by blast
qed

text \<open>
  C10, as the code has it. A result of \<open>execute\<close> is denied only when the Tavily tool ran
  and denied the query, which it does when its validation denies and also when its
  validation allows and the generation replies \<open>DENIED\<close>, and the file database gave no
  usable answer; a denied result has no citations. On a data stream that accepts every
  write the result is denied exactly then, and when the file database gave a usable
  answer a denial of the Tavily tool is dropped: the result is not denied and carries the
  file answer and the file citations.
\<close>

theorem execute_denied_only_when_tavily_tool_denies:
  "(\<forall>r. fst (execute env query) = Inr r \<and> denied r \<longrightarrow>
        citations r = Some []
        \<and> truthy (TAVILY_API_KEY env)
        \<and> (\<not> isValid (fst (validateVinUniQuery env query))
            \<or> (\<exists>sr. fst (performDualDomainSearch env query) = Inr sr \<and> results sr \<noteq> []
                    \<and> openaiGenerate env query (results sr) = Inr (Some ''DENIED'')))
        \<and> \<not> (truthy (VECTOR_STORE_ID env)
              \<and> (\<exists>f. fetchFileSearch env query (orElse (VECTOR_STORE_ID env) []) = Inr (Some f)
                      \<and> answer f \<noteq> [] \<and> answer f \<noteq> FILE_DENIED_MESSAGE
                      \<and> answer f \<noteq> DEFAULT_ERROR_MESSAGE)))
   \<and> (writeData env = (\<lambda>step. None) \<longrightarrow>
        (\<exists>r. fst (execute env query) = Inr r
           \<and> denied r
               = (truthy (TAVILY_API_KEY env)
                  \<and> (\<not> isValid (fst (validateVinUniQuery env query))
                      \<or> (\<exists>sr. fst (performDualDomainSearch env query) = Inr sr \<and> results sr \<noteq> []
                              \<and> openaiGenerate env query (results sr) = Inr (Some ''DENIED'')))
                  \<and> \<not> (truthy (VECTOR_STORE_ID env)
                        \<and> (\<exists>f. fetchFileSearch env query (orElse (VECTOR_STORE_ID env) [])
                                  = Inr (Some f)
                                \<and> answer f \<noteq> [] \<and> answer f \<noteq> FILE_DENIED_MESSAGE
                                \<and> answer f \<noteq> DEFAULT_ERROR_MESSAGE)))
           \<and> (\<forall>f. truthy (VECTOR_STORE_ID env)
                  \<and> fetchFileSearch env query (orElse (VECTOR_STORE_ID env) []) = Inr (Some f)
                  \<and> answer f \<noteq> [] \<and> answer f \<noteq> FILE_DENIED_MESSAGE
                  \<and> answer f \<noteq> DEFAULT_ERROR_MESSAGE
                  \<and> truthy (TAVILY_API_KEY env)
                  \<and> (\<not> isValid (fst (validateVinUniQuery env query))
                      \<or> (\<exists>sr. fst (performDualDomainSearch env query) = Inr sr \<and> results sr \<noteq> []
                              \<and> openaiGenerate env query (results sr) = Inr (Some ''DENIED'')))
                \<longrightarrow> answer r
                      = ''## File Database Results'' @ nl @ nl @ answer f @ nl @ nl
                        @ ''*Results from file database (''
                        @ showNat (length (orEmpty (citations f)))
                        @ '' sources). Policy documents search found no additional relevant information.*''
                    \<and> citations r = Some (orEmpty (citations f)))))"
proof -
  let ?usable = "truthy (VECTOR_STORE_ID env)
              \<and> (\<exists>f. fetchFileSearch env query (orElse (VECTOR_STORE_ID env) []) = Inr (Some f)
                      \<and> answer f \<noteq> [] \<and> answer f \<noteq> FILE_DENIED_MESSAGE
                      \<and> answer f \<noteq> DEFAULT_ERROR_MESSAGE)"
  let ?denies = "\<not> isValid (fst (validateVinUniQuery env query))
            \<or> (\<exists>sr. fst (performDualDomainSearch env query) = Inr sr \<and> results sr \<noteq> []
                    \<and> openaiGenerate env query (results sr) = Inr (Some ''DENIED''))"
  have p1: "citations r = Some [] \<and> truthy (TAVILY_API_KEY env) \<and> ?denies \<and> \<not> ?usable"
    if a: "fst (execute env query) = Inr r \<and> denied r" for r
  proof -
    from a have "r \<noteq> plainResult UNEXPECTED_MESSAGE []" by (auto simp: plainResult_def)
    with a execute_result have "fst (execute_try env query) = Inr r" by blast
    from execute_try_result [OF this] a step3_not_denied obtain st1 where
      s1: "fst (step1_fileSearch env query) = Inr st1" and
      s2: "fst (step2_tavilySearch env query st1) = Inr (Inl r)"
      by blast
    from step2_Inl_result [OF s2] obtain tr :: tool_result where
      k: "truthy (TAVILY_API_KEY env)" and nf: "\<not> hasFileResults st1"
      and tr: "fst (fetchTavilyFileSearch_stream (writeData env) env query) = Inr tr"
      and d: "denied tr" and r: "r = (plainResult (answer tr) [])\<lparr>denied := True\<rparr>"
      by blast
    from fetchTavilyFileSearch_stream_result [OF tr] d have c: ?denies by blast
    from nf hasFileResults_step1 [OF s1] have u: "\<not> ?usable" by blast
    from r have "citations r = Some []" by (simp add: plainResult_def)
    with k c u show ?thesis by blast
  qed
  have p2: "\<exists>r. fst (execute env query) = Inr r
           \<and> denied r = (truthy (TAVILY_API_KEY env) \<and> ?denies \<and> \<not> ?usable)
           \<and> (\<forall>f. truthy (VECTOR_STORE_ID env)
                  \<and> fetchFileSearch env query (orElse (VECTOR_STORE_ID env) []) = Inr (Some f)
                  \<and> answer f \<noteq> [] \<and> answer f \<noteq> FILE_DENIED_MESSAGE
                  \<and> answer f \<noteq> DEFAULT_ERROR_MESSAGE
                  \<and> truthy (TAVILY_API_KEY env) \<and> ?denies
                \<longrightarrow> answer r
                      = ''## File Database Results'' @ nl @ nl @ answer f @ nl @ nl
                        @ ''*Results from file database (''
                        @ showNat (length (orEmpty (citations f)))
                        @ '' sources). Policy documents search found no additional relevant information.*''
                    \<and> citations r = Some (orEmpty (citations f)))"
    if w: "writeData env = (\<lambda>step. None)"
  proof -
  from step1_open [OF w] obtain st1 where s1: "fst (step1_fileSearch env query) = Inr st1" by blast
  note u = hasFileResults_step1 [OF s1]
  note e = execute_open [OF w s1]
  note s2 = step2_open [OF w, of query st1]
  obtain tr :: tool_result where tr: "fst (fetchTavilyFileSearch env query) = Inr tr"
    using fetchTavilyFileSearch_stream_Inr [of "\<lambda>step. None" env query]
    by (auto simp: fetchTavilyFileSearch_stream_open)
  note dc = fetchTavilyFileSearch_denied_cond [OF tr]
  show ?thesis
  proof (cases "truthy (TAVILY_API_KEY env) \<and> denied tr")
    case False
    then have nd: "\<not> (truthy (TAVILY_API_KEY env) \<and> ?denies)" using dc by blast
    from False tr s2 obtain st2 where "fst (step2_tavilySearch env query st1) = Inr (Inr st2)"
      by (auto split: if_splits)
    with e have "fst (execute env query) = Inr (step3_combine env st2)" by simp
    with nd step3_not_denied [of env st2] show ?thesis by blast
  next
    case True
    then have d: "truthy (TAVILY_API_KEY env) \<and> ?denies" using dc by blast
    show ?thesis
    proof (cases "hasFileResults st1")
      case False
      with True tr s2
      have "fst (step2_tavilySearch env query st1)
              = Inr (Inl ((plainResult (answer tr) [])\<lparr>denied := True\<rparr>))"
        by simp
      with e have "fst (execute env query) = Inr ((plainResult (answer tr) [])\<lparr>denied := True\<rparr>)"
        by simp
      moreover have "denied ((plainResult (answer tr) [])\<lparr>denied := True\<rparr>)" by simp
      moreover from False u have "\<not> ?usable" by blast
      ultimately show ?thesis using d by blast
    next
      case h: True
      with True tr s2
      have "fst (step2_tavilySearch env query st1) = Inr (Inr (st1\<lparr>tavilyResults := Some tr\<rparr>))"
        by simp
      with e have x: "fst (execute env query)
                        = Inr (step3_combine env (st1\<lparr>tavilyResults := Some tr\<rparr>))"
        by simp
      have y: "answer (step3_combine env (st1\<lparr>tavilyResults := Some tr\<rparr>))
                      = ''## File Database Results'' @ nl @ nl @ answer f @ nl @ nl
                        @ ''*Results from file database (''
                        @ showNat (length (orEmpty (citations f)))
                        @ '' sources). Policy documents search found no additional relevant information.*''
               \<and> citations (step3_combine env (st1\<lparr>tavilyResults := Some tr\<rparr>))
                   = Some (orEmpty (citations f))"
        if a: "truthy (VECTOR_STORE_ID env)
                  \<and> fetchFileSearch env query (orElse (VECTOR_STORE_ID env) []) = Inr (Some f)
                  \<and> answer f \<noteq> [] \<and> answer f \<noteq> FILE_DENIED_MESSAGE
                  \<and> answer f \<noteq> DEFAULT_ERROR_MESSAGE
                  \<and> truthy (TAVILY_API_KEY env) \<and> ?denies" for f
      proof -
        from a have "st1 = \<lparr>combinedAnswer = ''## File Database Results'' @ nl @ nl @ answer f,
              combinedCitations = orEmpty (citations f), hasFileResults = True,
              hasTavilyResults = False, fileSearchResults = Some f, tavilyResults = None\<rparr>"
          by (intro step1_usable_state [OF s1]) simp_all
        with a show ?thesis by (simp add: step3_combine_def plainResult_def citationCount_def)
      qed
      from h u have "?usable" by blast
      with x y step3_not_denied [of env "st1\<lparr>tavilyResults := Some tr\<rparr>"] show ?thesis
        by blast
    qed
  qed
qed
  from p1 p2 show ?thesis by blast
qed

text \<open>C10, as the code has it, in the example world: a denial without and with a usable file answer.\<close>

theorem execute_denied_only_when_tavily_tool_denies_witness:
  "truthy (TAVILY_API_KEY (exampleEnv (Some ''vs_1'') (Inr None) (Inr (Some ''DENIED'')) (Inr None)))
   \<and> \<not> isValid (fst (validateVinUniQuery
                       (exampleEnv (Some ''vs_1'') (Inr None) (Inr (Some ''DENIED'')) (Inr None)) ''weather''))
   \<and> writeData (exampleEnv (Some ''vs_1'') (Inr None) (Inr (Some ''DENIED'')) (Inr None))
       = (\<lambda>step. None)
   \<and> (\<exists>r. fst (execute (exampleEnv (Some ''vs_1'') (Inr None) (Inr (Some ''DENIED'')) (Inr None))
                   ''weather'') = Inr r
           \<and> denied r \<and> citations r = Some [])
   \<and> truthy (VECTOR_STORE_ID (exampleEnv (Some ''vs_1'') (Inr (Some fileAnswer)) (Inr (Some ''DENIED'')) (Inr None)))
   \<and> fetchFileSearch (exampleEnv (Some ''vs_1'') (Inr (Some fileAnswer)) (Inr (Some ''DENIED'')) (Inr None))
        ''weather'' ''vs_1'' = Inr (Some fileAnswer)
   \<and> truthy (TAVILY_API_KEY (exampleEnv (Some ''vs_1'') (Inr (Some fileAnswer)) (Inr (Some ''DENIED'')) (Inr None)))
   \<and> \<not> isValid (fst (validateVinUniQuery
                       (exampleEnv (Some ''vs_1'') (Inr (Some fileAnswer)) (Inr (Some ''DENIED'')) (Inr None))
                       ''weather''))
   \<and> (\<exists>r. fst (execute (exampleEnv (Some ''vs_1'') (Inr (Some fileAnswer)) (Inr (Some ''DENIED'')) (Inr None))
                   ''weather'') = Inr r
           \<and> \<not> denied r
           \<and> answer r = ''## File Database Results'' @ nl @ nl @ ''Tuition is due in August.'' @ nl @ nl
                @ ''*Results from file database (1 sources). Policy documents search found no additional relevant information.*''
           \<and> citations r = citations fileAnswer)"
proof -
  let ?D = "exampleEnv (Some ''vs_1'') (Inr None) (Inr (Some ''DENIED'')) (Inr None)"
  let ?F = "exampleEnv (Some ''vs_1'') (Inr (Some fileAnswer)) (Inr (Some ''DENIED'')) (Inr None)"
  have t: "trim ''DENIED'' = ''DENIED''" by code_simp
  have dv: "\<not> isValid (fst (validateVinUniQuery ?D ''weather''))"
    by (simp add: validateVinUniQuery_def exampleEnv_def t)
  have fv: "\<not> isValid (fst (validateVinUniQuery ?F ''weather''))"
    by (simp add: validateVinUniQuery_def exampleEnv_def t)
  have kd: "truthy (TAVILY_API_KEY ?D)" and kf: "truthy (TAVILY_API_KEY ?F)"
    and vf: "truthy (VECTOR_STORE_ID ?F)"
    and vs: "orElse (VECTOR_STORE_ID ?F) [] = ''vs_1''"
    and ff: "fetchFileSearch ?F ''weather'' ''vs_1'' = Inr (Some fileAnswer)"
    and fd: "fetchFileSearch ?D ''weather'' (orElse (VECTOR_STORE_ID ?D) []) = Inr None"
    by (simp_all add: exampleEnv_def truthy_def orElse_def)
  have fa: "answer fileAnswer = ''Tuition is due in August.''"
    and fc: "orEmpty (citations fileAnswer) = [\<lparr>title = ''fees.pdf'', url = None, content = None, score = None\<rparr>]"
    by (simp_all add: fileAnswer_def plainResult_def orEmpty_def)
  have fu: "answer fileAnswer \<noteq> [] \<and> answer fileAnswer \<noteq> FILE_DENIED_MESSAGE
            \<and> answer fileAnswer \<noteq> DEFAULT_ERROR_MESSAGE"
    by (simp add: fa FILE_DENIED_MESSAGE_def DEFAULT_ERROR_MESSAGE_def)
  have one: "showNat (Suc 0) = ''1''" by code_simp
  note T = execute_denied_only_when_tavily_tool_denies
  from T [of ?D "''weather''"] exampleEnv_open [of "Some ''vs_1''" "Inr None" "Inr (Some ''DENIED'')" "Inr None"]
  obtain r where r: "fst (execute ?D ''weather'') = Inr r"
    and rd: "denied r
               = (truthy (TAVILY_API_KEY ?D)
                  \<and> (\<not> isValid (fst (validateVinUniQuery ?D ''weather''))
                      \<or> (\<exists>sr. fst (performDualDomainSearch ?D ''weather'') = Inr sr \<and> results sr \<noteq> []
                              \<and> openaiGenerate ?D ''weather'' (results sr) = Inr (Some ''DENIED'')))
                  \<and> \<not> (truthy (VECTOR_STORE_ID ?D)
                        \<and> (\<exists>f. fetchFileSearch ?D ''weather'' (orElse (VECTOR_STORE_ID ?D) [])
                                  = Inr (Some f)
                                \<and> answer f \<noteq> [] \<and> answer f \<noteq> FILE_DENIED_MESSAGE
                                \<and> answer f \<noteq> DEFAULT_ERROR_MESSAGE)))"
    by blast
  from rd kd dv fd have d: "denied r" by simp
  with T [of ?D "''weather''"] r have "citations r = Some []" by blast
  with r d have a: "\<exists>r. fst (execute ?D ''weather'') = Inr r \<and> denied r \<and> citations r = Some []"
    by blast
  from T [of ?F "''weather''"] exampleEnv_open [of "Some ''vs_1''" "Inr (Some fileAnswer)" "Inr (Some ''DENIED'')" "Inr None"]
  obtain r' where r': "fst (execute ?F ''weather'') = Inr r'"
    and s: "\<And>f. truthy (VECTOR_STORE_ID ?F)
                  \<and> fetchFileSearch ?F ''weather'' (orElse (VECTOR_STORE_ID ?F) []) = Inr (Some f)
                  \<and> answer f \<noteq> [] \<and> answer f \<noteq> FILE_DENIED_MESSAGE
                  \<and> answer f \<noteq> DEFAULT_ERROR_MESSAGE
                  \<and> truthy (TAVILY_API_KEY ?F)
                  \<and> (\<not> isValid (fst (validateVinUniQuery ?F ''weather''))
                      \<or> (\<exists>sr. fst (performDualDomainSearch ?F ''weather'') = Inr sr \<and> results sr \<noteq> []
                              \<and> openaiGenerate ?F ''weather'' (results sr) = Inr (Some ''DENIED'')))
                \<Longrightarrow> answer r'
                      = ''## File Database Results'' @ nl @ nl @ answer f @ nl @ nl
                        @ ''*Results from file database (''
                        @ showNat (length (orEmpty (citations f)))
                        @ '' sources). Policy documents search found no additional relevant information.*''
                    \<and> citations r' = Some (orEmpty (citations f))"
    by blast
  have x: "answer r'
                      = ''## File Database Results'' @ nl @ nl @ answer fileAnswer @ nl @ nl
                        @ ''*Results from file database (''
                        @ showNat (length (orEmpty (citations fileAnswer)))
                        @ '' sources). Policy documents search found no additional relevant information.*''
                    \<and> citations r' = Some (orEmpty (citations fileAnswer))"
    using s [of fileAnswer] vf vs ff fu kf fv by simp
  have nd: "\<not> denied r'"
  proof
    assume "denied r'"
    with T [of ?F "''weather''"] r'
    have "\<not> (truthy (VECTOR_STORE_ID ?F)
              \<and> (\<exists>f. fetchFileSearch ?F ''weather'' (orElse (VECTOR_STORE_ID ?F) []) = Inr (Some f)
                      \<and> answer f \<noteq> [] \<and> answer f \<noteq> FILE_DENIED_MESSAGE
                      \<and> answer f \<noteq> DEFAULT_ERROR_MESSAGE))"
      by blast
    with vf vs ff fu show False by auto
  qed
  from x have b: "answer r' = ''## File Database Results'' @ nl @ nl @ ''Tuition is due in August.'' @ nl @ nl
                @ ''*Results from file database (1 sources). Policy documents search found no additional relevant information.*''
           \<and> citations r' = citations fileAnswer"
    by (simp add: fa fc one) (simp add: fileAnswer_def plainResult_def)
  from kd dv exampleEnv_open [of "Some ''vs_1''" "Inr None" "Inr (Some ''DENIED'')" "Inr None"]
       a vf ff kf fv r' nd b
  show ?thesis by blast
qed

text \<open>
  C10, as stated, fails: the validation allows the query, the generation replies
  \<open>DENIED\<close>, there is no file database, and the result of \<open>execute\<close> is denied.
\<close>

theorem generation_denial_counterexample:
  "isValid (fst (validateVinUniQuery
                   (exampleEnv None (Inr None) (Inr (Some ''VALID'')) (Inr (Some ''DENIED'')))
                   ''financial aid''))
   \<and> fst (execute (exampleEnv None (Inr None) (Inr (Some ''VALID'')) (Inr (Some ''DENIED'')))
             ''financial aid'')
       = Inr \<lparr>answer = DENIED_MESSAGE, citations = Some [], denied = True,
               searchQuery = None, keywords' = None, searchStats = None\<rparr>"
proof -
  let ?E = "exampleEnv None (Inr None) (Inr (Some ''VALID'')) (Inr (Some ''DENIED''))"
  let ?sr = "\<lparr>results = [policyAid, mirrorAid], policyCount = 1, mainCount = 1, totalCount = 2,
               generalSearchTotal = 2, filteredFromGeneral = 1\<rparr>"
  have t: "trim ''VALID'' = ''VALID''" by code_simp
  have v: "validateVinUniQuery ?E ''financial aid''
             = (\<lparr>isValid = True, reason = None\<rparr>, [ClassifyCall ''financial aid''])"
    by (simp add: validateVinUniQuery_def exampleEnv_def t)
  obtain u where s: "performDualDomainSearch ?E ''financial aid'' = (Inr ?sr, u)"
    using exampleEnv_search [of None "Inr None" "Inr (Some ''VALID'')" "Inr (Some ''DENIED'')"]
    by (cases "performDualDomainSearch ?E ''financial aid''") simp
  have g: "generateAnswerWithContext ?E ''financial aid'' [policyAid, mirrorAid]
             = (Inr ''DENIED'', [GenerateCall ''financial aid'' [policyAid, mirrorAid]])"
    by (simp add: generateAnswerWithContext_def exampleEnv_def)
  have f: "fst (fetchTavilyFileSearch ?E ''financial aid'')
             = Inr ((plainResult DENIED_MESSAGE [])\<lparr>denied := True\<rparr>)"
    by (simp add: fetchTavilyFileSearch_def fetchTavilyFileSearch_try_def v s g)
  have k: "truthy (TAVILY_API_KEY ?E)" and n: "\<not> truthy (VECTOR_STORE_ID ?E)"
    by (simp_all add: exampleEnv_def truthy_def)
  obtain st1 where s1: "fst (step1_fileSearch ?E ''financial aid'') = Inr st1"
    using step1_open [OF exampleEnv_open] by blast
  from step1_state [OF s1] n have i: "st1 = initialState" by simp
  have "fst (step2_tavilySearch ?E ''financial aid'' st1)
          = Inr (Inl ((plainResult DENIED_MESSAGE [])\<lparr>denied := True\<rparr>))"
    by (simp add: step2_open [OF exampleEnv_open] k f i initialState_def plainResult_def)
  then have "fst (execute ?E ''financial aid'')
          = Inr ((plainResult DENIED_MESSAGE [])\<lparr>denied := True\<rparr>)"
    by (simp add: execute_open [OF exampleEnv_open s1])
  with v show ?thesis by (simp add: plainResult_def)
qed

end
